theory Spec2Isabelle
  imports Main "HOL-Library.Countable"
begin

section \<open>JavaScript strings\<close>

text \<open>
  Strings are lists of code units; the code units are those below 256. Without the
  \<open>u\<close> flag the classes \<open>\d\<close> and \<open>\w\<close> of the regular expressions are the ASCII ones, and
  \<open>\s\<close> holds, below 256, the six ASCII blanks and the no-break space.
\<close>

definition is_digit :: "char \<Rightarrow> bool" where
  "is_digit c = (c \<in> set ''0123456789'')"

definition is_upper :: "char \<Rightarrow> bool" where
  "is_upper c = (c \<in> set ''ABCDEFGHIJKLMNOPQRSTUVWXYZ'')"

definition is_lower :: "char \<Rightarrow> bool" where
  "is_lower c = (c \<in> set ''abcdefghijklmnopqrstuvwxyz'')"

definition is_alpha :: "char \<Rightarrow> bool" where
  "is_alpha c = (is_upper c \<or> is_lower c)"

definition is_word :: "char \<Rightarrow> bool" where
  "is_word c = (is_alpha c \<or> is_digit c \<or> c = CHR ''_'')"

definition is_space :: "char \<Rightarrow> bool" where
  "is_space c = (c \<in> set [CHR '' '', CHR 0x09, CHR 0x0A, CHR 0x0B, CHR 0x0C, CHR 0x0D, CHR 0xA0])"

definition lower_char :: "char \<Rightarrow> char" where
  "lower_char c =
     (case map_of (zip ''ABCDEFGHIJKLMNOPQRSTUVWXYZ'' ''abcdefghijklmnopqrstuvwxyz'') c of
        Some d \<Rightarrow> d | None \<Rightarrow> c)"

definition upper_char :: "char \<Rightarrow> char" where
  "upper_char c =
     (case map_of (zip ''abcdefghijklmnopqrstuvwxyz'' ''ABCDEFGHIJKLMNOPQRSTUVWXYZ'') c of
        Some d \<Rightarrow> d | None \<Rightarrow> c)"

text \<open>
  \<open>String.prototype.toUpperCase\<close> is applied by the source only to text matched by \<open>\w+\<close>
  or by a literal alternative of ASCII letters; on such text it maps the letters a-z and
  keeps everything else. \<open>String.prototype.toLowerCase\<close> is applied to arbitrary names,
  where it follows the Unicode tables and may change the length: the functions that call
  it take it as the parameter \<open>toLowerCase\<close>. \<open>ascii_lower\<close> is what it does on ASCII
  strings.
\<close>

definition toUpperCase :: "string \<Rightarrow> string" where
  "toUpperCase s = map upper_char s"

definition ascii_lower :: "string \<Rightarrow> string" where
  "ascii_lower s = map lower_char s"

definition startsWith :: "string \<Rightarrow> string \<Rightarrow> bool" where
  "startsWith s p = (take (length p) s = p)"

text \<open>\<open>s.split(c)\<close> for a one-character separator: never empty, \<open>''''\<close> gives \<open>['''']\<close>.\<close>

fun split_on :: "char \<Rightarrow> string \<Rightarrow> string list" where
  "split_on c [] = [[]]"
| "split_on c (x # xs) =
     (if x = c then [] # split_on c xs
      else (case split_on c xs of [] \<Rightarrow> [[x]] | p # ps \<Rightarrow> (x # p) # ps))"

fun join_with :: "string \<Rightarrow> string list \<Rightarrow> string" where
  "join_with sep [] = []"
| "join_with sep [p] = p"
| "join_with sep (p # q # ps) = p @ sep @ join_with sep (q # ps)"

definition trim :: "string \<Rightarrow> string" where
  "trim s = rev (dropWhile is_space (rev (dropWhile is_space s)))"

section \<open>Regular expressions\<close>

text \<open>
  The source matches lines and paths with JavaScript regular expressions. They are
  embedded as terms of \<open>re\<close> and run by a backtracking matcher: \<open>run r st\<close> lists, in the
  order in which JavaScript tries them, the states in which a match of \<open>r\<close> from state
  \<open>st\<close> can end. A state is the text consumed so far (reversed), the text still to be
  read, and the capture groups set so far. \<open>Star\<close> is the greedy \<open>*\<close> and \<open>Lazy\<close> the lazy
  \<open>*?\<close>; an iteration that consumes nothing is not repeated.
\<close>

datatype re =
    Chr "char \<Rightarrow> bool"
  | Eps
  | Seq re re
  | Alt re re
  | Star re
  | Lazy re
  | Group nat re
  | Bol
  | Eol
  | WordB
  | NotAhead re

type_synonym mstate = "string \<times> string \<times> (nat \<times> string) list"

fun rest_of :: "mstate \<Rightarrow> string" where
  "rest_of (pre, rest, caps) = rest"

function run :: "re \<Rightarrow> mstate \<Rightarrow> mstate list" where
  "run (Chr p) (pre, rest, caps) =
     (case rest of [] \<Rightarrow> [] | c # cs \<Rightarrow> if p c then [(c # pre, cs, caps)] else [])"
| "run Eps st = [st]"
| "run (Seq a b) st = concat (map (run b) (run a st))"
| "run (Alt a b) st = run a st @ run b st"
| "run (Star a) st =
     concat (map (\<lambda>st'. if length (rest_of st') < length (rest_of st)
                          then run (Star a) st' else [])
               (run a st)) @ [st]"
| "run (Lazy a) st =
     st # concat (map (\<lambda>st'. if length (rest_of st') < length (rest_of st)
                               then run (Lazy a) st' else [])
                    (run a st))"
| "run (Group n a) (pre, rest, caps) =
     map (\<lambda>(pre', rest', caps').
            (pre', rest', (n, take (length rest - length rest') rest) # caps'))
       (run a (pre, rest, caps))"
| "run Bol (pre, rest, caps) = (if pre = [] then [(pre, rest, caps)] else [])"
| "run Eol (pre, rest, caps) = (if rest = [] then [(pre, rest, caps)] else [])"
| "run WordB (pre, rest, caps) =
     (if (pre \<noteq> [] \<and> is_word (hd pre)) \<noteq> (rest \<noteq> [] \<and> is_word (hd rest))
      then [(pre, rest, caps)] else [])"
| "run (NotAhead a) st = (if run a st = [] then [st] else [])"
  by pat_completeness auto
termination
  by (relation "measures [\<lambda>(r, st). size r, \<lambda>(r, st). length (rest_of st)]") auto

definition Lit :: "string \<Rightarrow> re" where
  "Lit s = foldr (\<lambda>c r. Seq (Chr ((=) c)) r) s Eps"

text \<open>A literal under the \<open>i\<close> flag.\<close>

definition LitI :: "string \<Rightarrow> re" where
  "LitI s = foldr (\<lambda>c r. Seq (Chr (\<lambda>x. lower_char x = lower_char c)) r) s Eps"

definition Plus :: "re \<Rightarrow> re" where
  "Plus r = Seq r (Star r)"

definition Opt :: "re \<Rightarrow> re" where
  "Opt r = Alt r Eps"

definition Seqs :: "re list \<Rightarrow> re" where
  "Seqs rs = foldr Seq rs Eps"

definition OneOf :: "string \<Rightarrow> re" where
  "OneOf cs = Chr (\<lambda>c. c \<in> set cs)"

definition NoneOf :: "string \<Rightarrow> re" where
  "NoneOf cs = Chr (\<lambda>c. c \<notin> set cs)"

text \<open>An expression without capture groups leaves the captures as they are.\<close>

fun no_group :: "re \<Rightarrow> bool" where
  "no_group (Chr p) = True"
| "no_group Eps = True"
| "no_group (Seq a b) = (no_group a \<and> no_group b)"
| "no_group (Alt a b) = (no_group a \<and> no_group b)"
| "no_group (Star a) = no_group a"
| "no_group (Lazy a) = no_group a"
| "no_group (Group n a) = False"
| "no_group Bol = True"
| "no_group Eol = True"
| "no_group WordB = True"
| "no_group (NotAhead a) = True"

record re_match =
  index :: nat
  matched :: string
  groups :: "(nat \<times> string) list"
  consumed :: string
  remaining :: string

text \<open>
  \<open>search r pre rest\<close>: the leftmost match of \<open>r\<close> starting at or after the position
  between \<open>pre\<close> (reversed) and \<open>rest\<close>, as \<open>RegExp.prototype.exec\<close> finds it.
\<close>

fun search :: "re \<Rightarrow> string \<Rightarrow> string \<Rightarrow> re_match option" where
  "search r pre rest =
     (case run r (pre, rest, []) of
        (pre', rest', caps) # others \<Rightarrow>
          Some \<lparr>index = length pre, matched = take (length rest - length rest') rest,
                groups = caps, consumed = pre', remaining = rest'\<rparr>
      | [] \<Rightarrow> (case rest of [] \<Rightarrow> None | c # cs \<Rightarrow> search r (c # pre) cs))"

declare search.simps [simp del]

definition exec :: "re \<Rightarrow> string \<Rightarrow> re_match option" where
  "exec r s = search r [] s"

definition test :: "re \<Rightarrow> string \<Rightarrow> bool" where
  "test r s = (exec r s \<noteq> None)"

definition group :: "re_match \<Rightarrow> nat \<Rightarrow> string" where
  "group m n = (case map_of (groups m) n of Some g \<Rightarrow> g | None \<Rightarrow> [])"

text \<open>
  All matches under the \<open>g\<close> flag, each search starting where the previous match ended
  (no global expression of the source can match the empty string).
\<close>

function match_all :: "re \<Rightarrow> string \<Rightarrow> string \<Rightarrow> re_match list" where
  "match_all r pre rest =
     (case search r pre rest of
        None \<Rightarrow> []
      | Some m \<Rightarrow>
          m # (if length (remaining m) < length rest
               then match_all r (consumed m) (remaining m) else []))"
  by pat_completeness auto
termination
  by (relation "measure (\<lambda>(r, pre, rest). length rest)") auto

declare match_all.simps [simp del]

fun splice :: "string \<Rightarrow> nat \<Rightarrow> re_match list \<Rightarrow> string \<Rightarrow> string" where
  "splice s pos [] repl = drop pos s"
| "splice s pos (m # ms) repl =
     take (index m - pos) (drop pos s) @ repl @ splice s (index m + length (matched m)) ms repl"

definition replace_all :: "re \<Rightarrow> string \<Rightarrow> string \<Rightarrow> string" where
  "replace_all r repl s = splice s 0 (match_all r [] s) repl"

definition replace_first :: "re \<Rightarrow> string \<Rightarrow> string \<Rightarrow> string" where
  "replace_first r repl s =
     (case exec r s of None \<Rightarrow> s
      | Some m \<Rightarrow> take (index m) s @ repl @ drop (index m + length (matched m)) s)"

section \<open>JavaScript objects used as dictionaries\<close>

text \<open>
  The registry's categories are object literals \<open>{}\<close>. Their own properties are kept in
  insertion order (no key of the registry is an array index). A read \<open>obj[name]\<close> of a
  name that is not an own property falls through to \<open>Object.prototype\<close>, whose members
  are functions (and \<open>__proto__\<close>, the prototype object itself): all of them truthy.
\<close>

type_synonym 'v js_obj = "(string \<times> 'v) list"

definition object_prototype_keys :: "string list" where
  "object_prototype_keys =
     [''constructor'', ''__defineGetter__'', ''__defineSetter__'', ''hasOwnProperty'',
      ''__lookupGetter__'', ''__lookupSetter__'', ''isPrototypeOf'',
      ''propertyIsEnumerable'', ''toString'', ''valueOf'', ''__proto__'',
      ''toLocaleString'']"

datatype 'v js_prop = Undefined | Own 'v | Inherited

definition js_get :: "'v js_obj \<Rightarrow> string \<Rightarrow> 'v js_prop" where
  "js_get obj k =
     (case map_of obj k of
        Some v \<Rightarrow> Own v
      | None \<Rightarrow> if k \<in> set object_prototype_keys then Inherited else Undefined)"

text \<open>Every value stored in the registry is an object, hence truthy.\<close>

fun truthy :: "'v js_prop \<Rightarrow> bool" where
  "truthy Undefined = False"
| "truthy (Own v) = True"
| "truthy Inherited = True"

fun js_set :: "'v js_obj \<Rightarrow> string \<Rightarrow> 'v \<Rightarrow> 'v js_obj" where
  "js_set [] k v = [(k, v)]"
| "js_set ((k', v') # obj) k v =
     (if k' = k then (k, v) # obj else (k', v') # js_set obj k v)"

definition js_keys :: "'v js_obj \<Rightarrow> string list" where
  "js_keys obj = map fst obj"

text \<open>A \<open>Set\<close> of strings in insertion order, and its \<open>add\<close>.\<close>

definition set_add :: "string list \<Rightarrow> string \<Rightarrow> string list" where
  "set_add names n = (if n \<in> set names then names else names @ [n])"

section \<open>The symbol registry\<close>

record has_file =
  srcfile :: string

record has_line = has_file +
  line :: nat

record sym_entry = has_line +
  usages :: nat

record route_entry = has_line +
  http_method :: string
  path :: string

record page_entry = has_file +
  title :: string
  scripts :: "string list"

record symbols =
  functions' :: "sym_entry js_obj"
  classes :: "sym_entry js_obj"
  variables :: "sym_entry js_obj"
  exports :: "sym_entry js_obj"
  apiRoutes :: "route_entry js_obj"
  htmlPages :: "page_entry js_obj"

definition empty_symbols :: symbols where
  "empty_symbols = \<lparr>functions' = [], classes = [], variables = [], exports = [],
     apiRoutes = [], htmlPages = []\<rparr>"

text \<open>
  \<open>addSymbol\<close>: \<open>if (!category[name]) category[name] = {file, line, usages: 1}\<close>, else
  \<open>category[name].usages++\<close>. When \<open>category[name]\<close> is an inherited member of
  \<open>Object.prototype\<close> the test is false and the increment lands on that member, so the
  category keeps its own properties as they are.
\<close>

definition addSymbol :: "sym_entry js_obj \<Rightarrow> string \<Rightarrow> string \<Rightarrow> nat \<Rightarrow> sym_entry js_obj" where
  "addSymbol category name filePath ln =
     (case js_get category name of
        Undefined \<Rightarrow> js_set category name \<lparr>srcfile = filePath, line = ln, usages = 1\<rparr>
      | Own e \<Rightarrow> js_set category name (e\<lparr>usages := usages e + 1\<rparr>)
      | Inherited \<Rightarrow> category)"

text \<open>One scan's calls for one category, in traversal order: (name, file, line).\<close>

fun addSymbols :: "sym_entry js_obj \<Rightarrow> (string \<times> string \<times> nat) list \<Rightarrow> sym_entry js_obj" where
  "addSymbols category [] = category"
| "addSymbols category ((n, f, l) # cs) = addSymbols (addSymbol category n f l) cs"

section \<open>The syntax-tree extractor\<close>

text \<open>
  The parser (ast-grep over tree-sitter) is outside the repository: the extractor only
  asks a tree for the nodes of a kind (\<open>findAll\<close>, the node itself and its descendants in
  document order), for a child by field name, and for a node's kind, text and starting
  line (0-based). A tree is modelled by exactly that: every node carries its kind, its
  text, its starting line and its children, each with its field name (empty when the
  child has none). \<open>parse\<close> is a parameter of the extractor; it gives \<open>None\<close> when the
  parser throws. On text that it cannot structure the parser does not throw: it returns a
  tree with \<open>ERROR\<close> nodes in it. The root of a tree begins at the first token of the
  text, so its text leaves out the blanks and line breaks before that token, while the
  starting lines of all nodes count from the start of the text.
\<close>

datatype Lang = JavaScript | TypeScript | Tsx

datatype sg_node = Node string string nat "(string \<times> sg_node) list"

fun kind :: "sg_node \<Rightarrow> string" where
  "kind (Node k t l cs) = k"

fun node_text :: "sg_node \<Rightarrow> string" where
  "node_text (Node k t l cs) = t"

fun start_line :: "sg_node \<Rightarrow> nat" where
  "start_line (Node k t l cs) = l"

fun children :: "sg_node \<Rightarrow> (string \<times> sg_node) list" where
  "children (Node k t l cs) = cs"

fun findAll :: "string \<Rightarrow> sg_node \<Rightarrow> sg_node list" where
  "findAll k (Node kd t l cs) =
     (if kd = k then [Node kd t l cs] else []) @ concat (map (findAll k) (map snd cs))"

definition field :: "sg_node \<Rightarrow> string \<Rightarrow> sg_node option" where
  "field n f = (case filter (\<lambda>fc. fst fc = f) (children n) of [] \<Rightarrow> None | fc # rest \<Rightarrow> Some (snd fc))"

text \<open>\<open>addSymbol(symbols.<category>, node.text(), filePath, node.range().start.line + 1 + lineOffset)\<close>\<close>

definition add_function :: "string \<Rightarrow> string \<Rightarrow> nat \<Rightarrow> symbols \<Rightarrow> symbols" where
  "add_function name filePath ln s = s\<lparr>functions' := addSymbol (functions' s) name filePath ln\<rparr>"

definition add_class :: "string \<Rightarrow> string \<Rightarrow> nat \<Rightarrow> symbols \<Rightarrow> symbols" where
  "add_class name filePath ln s = s\<lparr>classes := addSymbol (classes s) name filePath ln\<rparr>"

definition add_variable :: "string \<Rightarrow> string \<Rightarrow> nat \<Rightarrow> symbols \<Rightarrow> symbols" where
  "add_variable name filePath ln s = s\<lparr>variables := addSymbol (variables s) name filePath ln\<rparr>"

definition add_export :: "string \<Rightarrow> string \<Rightarrow> nat \<Rightarrow> symbols \<Rightarrow> symbols" where
  "add_export name filePath ln s = s\<lparr>exports := addSymbol (exports s) name filePath ln\<rparr>"

definition add_node ::
  "(string \<Rightarrow> string \<Rightarrow> nat \<Rightarrow> symbols \<Rightarrow> symbols) \<Rightarrow> string \<Rightarrow> nat \<Rightarrow> sg_node \<Rightarrow> symbols \<Rightarrow> symbols" where
  "add_node add filePath lineOffset name s =
     add (node_text name) filePath (start_line name + 1 + lineOffset) s"

text \<open>The loops over the nodes of one kind whose \<open>name\<close> field goes to one category.\<close>

definition named_decls ::
  "(string \<Rightarrow> string \<Rightarrow> nat \<Rightarrow> symbols \<Rightarrow> symbols) \<Rightarrow> string \<Rightarrow> string \<Rightarrow> nat \<Rightarrow> sg_node \<Rightarrow> symbols \<Rightarrow> symbols" where
  "named_decls add k filePath lineOffset root s =
     fold (\<lambda>node s. case field node ''name'' of
                        Some name \<Rightarrow> add_node add filePath lineOffset name s
                      | None \<Rightarrow> s)
       (findAll k root) s"

definition is_function_value :: "sg_node option \<Rightarrow> bool" where
  "is_function_value valueNode =
     (case valueNode of
        None \<Rightarrow> False
      | Some v \<Rightarrow> kind v = ''arrow_function'' \<or> kind v = ''function_expression'')"

text \<open>
  \<open>lexical_declaration\<close> declarators need a name and a value; \<open>variable_declaration\<close>
  declarators only a name.
\<close>

definition declarators :: "bool \<Rightarrow> string \<Rightarrow> string \<Rightarrow> nat \<Rightarrow> sg_node \<Rightarrow> symbols \<Rightarrow> symbols" where
  "declarators needs_value k filePath lineOffset root s =
     fold (\<lambda>node s.
        fold (\<lambda>decl s.
           (case field decl ''name'' of
              None \<Rightarrow> s
            | Some nameNode \<Rightarrow>
                if needs_value \<and> field decl ''value'' = None then s
                else if is_function_value (field decl ''value'')
                then add_node add_function filePath lineOffset nameNode s
                else add_node add_variable filePath lineOffset nameNode s))
          (findAll ''variable_declarator'' node) s)
       (findAll k root) s"

definition methods :: "string \<Rightarrow> nat \<Rightarrow> sg_node \<Rightarrow> symbols \<Rightarrow> symbols" where
  "methods filePath lineOffset root s =
     fold (\<lambda>node s. case field node ''name'' of
                        Some name \<Rightarrow>
                          if node_text name \<noteq> ''constructor''
                          then add_node add_function filePath lineOffset name s else s
                      | None \<Rightarrow> s)
       (findAll ''method_definition'' root) s"

definition export_statement :: "string \<Rightarrow> nat \<Rightarrow> sg_node \<Rightarrow> symbols \<Rightarrow> symbols" where
  "export_statement filePath lineOffset node s =
     (let s1 =
        (case field node ''declaration'' of
           None \<Rightarrow> s
         | Some declaration \<Rightarrow>
             (case field declaration ''name'' of
                Some nameNode \<Rightarrow> add_node add_export filePath lineOffset nameNode s
              | None \<Rightarrow>
                  if kind declaration = ''lexical_declaration''
                     \<or> kind declaration = ''variable_declaration''
                  then fold (\<lambda>decl s. case field decl ''name'' of
                                         Some n \<Rightarrow> add_node add_export filePath lineOffset n s
                                       | None \<Rightarrow> s)
                         (findAll ''variable_declarator'' declaration) s
                  else s));
          s2 = fold (\<lambda>spec s. case field spec ''name'' of
                                  Some nameNode \<Rightarrow> add_node add_export filePath lineOffset nameNode s
                                | None \<Rightarrow> s)
                 (findAll ''export_specifier'' node) s1
      in (case field node ''value'' of
            Some v \<Rightarrow> if kind v = ''identifier''
                      then add_node add_export filePath lineOffset v s2 else s2
          | None \<Rightarrow> s2))"

subsection \<open>The scan of the raw source lines\<close>

definition quote_chars :: string where
  "quote_chars = [CHR 0x27, CHR 0x22, CHR 0x60]"

fun Alts :: "re list \<Rightarrow> re" where
  "Alts [] = NotAhead Eps"
| "Alts [r] = r"
| "Alts (r # rs) = Alt r (Alts rs)"

text \<open>\<open>/^(?:module\.)?exports\.(\w+)\s*=/\<close>\<close>

definition re_memberExport :: re where
  "re_memberExport =
     Seqs [Bol, Opt (Lit ''module.''), Lit ''exports.'', Group 1 (Plus (Chr is_word)),
           Star (Chr is_space), Lit ''='']"

text \<open>\<open>/^module\.exports\s*=\s*\{([^}]+)\}/\<close>\<close>

definition re_bulkExport :: re where
  "re_bulkExport =
     Seqs [Bol, Lit ''module.exports'', Star (Chr is_space), Lit ''='', Star (Chr is_space),
           Lit ''{'', Group 1 (Plus (NoneOf ''}'')), Lit ''}'']"

text \<open>\<open>/(?:router|app)\.(get|post|put|delete|patch)\s*\(\s*['"`]([^'"`]+)['"`]/\<close>\<close>

definition re_routeMatch :: re where
  "re_routeMatch =
     Seqs [Alt (Lit ''router'') (Lit ''app''), Lit ''.'',
           Group 1 (Alts [Lit ''get'', Lit ''post'', Lit ''put'', Lit ''delete'', Lit ''patch'']),
           Star (Chr is_space), Lit ''('', Star (Chr is_space), OneOf quote_chars,
           Group 2 (Plus (NoneOf quote_chars)), OneOf quote_chars]"

text \<open>\<open>/app\.use\s*\(\s*['"`]([^'"`]+)['"`]/\<close>\<close>

definition re_mountMatch :: re where
  "re_mountMatch =
     Seqs [Lit ''app.use'', Star (Chr is_space), Lit ''('', Star (Chr is_space),
           OneOf quote_chars, Group 1 (Plus (NoneOf quote_chars)), OneOf quote_chars]"

text \<open>\<open>/^\w+$/\<close>\<close>

definition re_word_only :: re where
  "re_word_only = Seqs [Bol, Plus (Chr is_word), Eol]"

text \<open>\<open>bulkExport[1].split(',').map(s => s.trim().split(/[:\s]/)[0].trim())\<close>\<close>

definition bulk_names :: "string \<Rightarrow> string list" where
  "bulk_names inner =
     map (\<lambda>s. trim (takeWhile (\<lambda>c. c \<noteq> CHR '':'' \<and> \<not> is_space c) (trim s)))
       (split_on CHR '','' inner)"

definition add_route :: "string \<Rightarrow> route_entry \<Rightarrow> symbols \<Rightarrow> symbols" where
  "add_route key entry s =
     (if \<not> truthy (js_get (apiRoutes s) key)
      then s\<lparr>apiRoutes := js_set (apiRoutes s) key entry\<rparr> else s)"

text \<open>
  One iteration of the loop over \<open>root.text().split('\n')\<close>, for the line at index \<open>i\<close>.
  The recorded line is \<open>i + 1\<close> on all four paths.
\<close>

definition scan_line :: "string \<Rightarrow> nat \<Rightarrow> string \<Rightarrow> symbols \<Rightarrow> symbols" where
  "scan_line filePath i ln s =
     (case exec re_memberExport ln of
        Some memberExport \<Rightarrow> add_export (group memberExport 1) filePath (i + 1) s
      | None \<Rightarrow>
          (let s1 =
             (case exec re_bulkExport ln of
                Some bulkExport \<Rightarrow>
                  fold (\<lambda>name s. if name \<noteq> [] \<and> test re_word_only name
                                  then add_export name filePath (i + 1) s else s)
                    (bulk_names (group bulkExport 1)) s
              | None \<Rightarrow> s)
           in (case exec re_routeMatch ln of
                 Some routeMatch \<Rightarrow>
                   (let method = toUpperCase (group routeMatch 1);
                        routePath = group routeMatch 2
                    in add_route (method @ '' '' @ routePath)
                         \<lparr>srcfile = filePath, line = i + 1, http_method = method,
                           path = routePath\<rparr> s1)
               | None \<Rightarrow>
                   (case exec re_mountMatch ln of
                      Some mountMatch \<Rightarrow>
                        if startsWith (group mountMatch 1) ''/api''
                        then add_route (''MOUNT '' @ group mountMatch 1)
                               \<lparr>srcfile = filePath, line = i + 1, http_method = ''MOUNT'',
                                 path = group mountMatch 1\<rparr> s1
                        else s1
                    | None \<Rightarrow> s1))))"

definition enumerate_lines :: "string list \<Rightarrow> (nat \<times> string) list" where
  "enumerate_lines lines = zip [0..<length lines] lines"

definition scan_lines :: "string \<Rightarrow> string list \<Rightarrow> symbols \<Rightarrow> symbols" where
  "scan_lines filePath sourceLines s =
     fold (\<lambda>(i, ln). scan_line filePath i ln) (enumerate_lines sourceLines) s"

definition extractAstSymbols :: "sg_node \<Rightarrow> string \<Rightarrow> Lang \<Rightarrow> symbols \<Rightarrow> nat \<Rightarrow> symbols" where
  "extractAstSymbols root filePath lang s lineOffset =
     (let isTS = (lang = TypeScript \<or> lang = Tsx);
          s = named_decls add_function ''function_declaration'' filePath lineOffset root s;
          s = declarators True ''lexical_declaration'' filePath lineOffset root s;
          s = declarators False ''variable_declaration'' filePath lineOffset root s;
          s = named_decls add_class ''class_declaration'' filePath lineOffset root s;
          s = methods filePath lineOffset root s;
          s = (if isTS then
                 named_decls add_class ''enum_declaration'' filePath lineOffset root
                   (named_decls add_class ''type_alias_declaration'' filePath lineOffset root
                     (named_decls add_class ''interface_declaration'' filePath lineOffset root s))
               else s);
          s = fold (export_statement filePath lineOffset) (findAll ''export_statement'' root) s
      in scan_lines filePath (split_on CHR 0x0A (node_text root)) s)"

text \<open>
  \<open>extractWithAst\<close> catches the parser's exception and returns; nothing it calls after
  that throws. Its result is a sum so that the \<open>try\<close> around its call in \<open>extractHtml\<close>
  can be written as it stands.
\<close>

datatype js_error = ParseError | TypeError

definition extractWithAst ::
  "(Lang \<Rightarrow> string \<Rightarrow> sg_node option) \<Rightarrow> string \<Rightarrow> string \<Rightarrow> Lang \<Rightarrow> symbols \<Rightarrow> nat \<Rightarrow> js_error + symbols" where
  "extractWithAst parse filePath content lang s lineOffset =
     (case parse lang content of
        None \<Rightarrow> Inr s
      | Some root \<Rightarrow> Inr (extractAstSymbols root filePath lang s lineOffset))"

section \<open>The heuristic extractors\<close>

definition ident_start :: "char \<Rightarrow> bool" where
  "ident_start c = (is_alpha c \<or> c = CHR ''_'' \<or> c = CHR ''$'')"

definition re_ident :: re where
  "re_ident = Seq (Chr ident_start) (Star (Chr is_word))"

definition ws0 :: re where
  "ws0 = Star (Chr is_space)"

definition ws1 :: re where
  "ws1 = Plus (Chr is_space)"

definition word1 :: re where
  "word1 = Plus (Chr is_word)"

subsection \<open>JavaScript and TypeScript by line patterns\<close>

text \<open>\<open>/(?:async\s+)?function\s+([a-zA-Z_$]\w*)\s*\(/\<close>\<close>

definition re_js_funcDecl :: re where
  "re_js_funcDecl =
     Seqs [Opt (Seq (Lit ''async'') ws1), Lit ''function'', ws1, Group 1 re_ident, ws0, Lit ''('']"

text \<open>\<open>/(?:const|let|var)\s+([a-zA-Z_$]\w*)\s*=\s*(?:async\s+)?(?:\([^)]*\)|[a-zA-Z_$]\w*)\s*=>/\<close>\<close>

definition re_js_arrowFunc :: re where
  "re_js_arrowFunc =
     Seqs [Alts [Lit ''const'', Lit ''let'', Lit ''var''], ws1, Group 1 re_ident, ws0, Lit ''='',
           ws0, Opt (Seq (Lit ''async'') ws1),
           Alt (Seqs [Lit ''('', Star (NoneOf '')''), Lit '')'']) re_ident, ws0, Lit ''=>'']"

text \<open>\<open>/class\s+([A-Z]\w*)/\<close>\<close>

definition re_js_classDecl :: re where
  "re_js_classDecl = Seqs [Lit ''class'', ws1, Group 1 (Seq (Chr is_upper) (Star (Chr is_word)))]"

definition extractJsRegex_line :: "string \<Rightarrow> nat \<Rightarrow> nat \<Rightarrow> string \<Rightarrow> symbols \<Rightarrow> symbols" where
  "extractJsRegex_line filePath lineOffset i ln s =
     (let lineNum = i + 1 + lineOffset in
      case exec re_js_funcDecl ln of
        Some funcDecl \<Rightarrow> add_function (group funcDecl 1) filePath lineNum s
      | None \<Rightarrow>
          (case exec re_js_arrowFunc ln of
             Some arrowFunc \<Rightarrow> add_function (group arrowFunc 1) filePath lineNum s
           | None \<Rightarrow>
               (case exec re_js_classDecl ln of
                  Some classDecl \<Rightarrow> add_class (group classDecl 1) filePath lineNum s
                | None \<Rightarrow> s)))"

definition extractJsRegex :: "string \<Rightarrow> string list \<Rightarrow> symbols \<Rightarrow> nat \<Rightarrow> symbols" where
  "extractJsRegex filePath lines s lineOffset =
     fold (\<lambda>(i, ln). extractJsRegex_line filePath lineOffset i ln) (enumerate_lines lines) s"

subsection \<open>Python\<close>

text \<open>\<open>/^(?:async\s+)?def\s+(\w+)\s*\(/\<close>\<close>

definition re_py_funcDef :: re where
  "re_py_funcDef =
     Seqs [Bol, Opt (Seq (Lit ''async'') ws1), Lit ''def'', ws1, Group 1 word1, ws0, Lit ''('']"

text \<open>\<open>/^class\s+(\w+)[\s(:]/\<close>\<close>

definition re_py_classDef :: re where
  "re_py_classDef =
     Seqs [Bol, Lit ''class'', ws1, Group 1 word1, Chr (\<lambda>c. is_space c \<or> c \<in> set ''(:'')]"

text \<open>\<open>/^\s+(?:async\s+)?def\s+(\w+)\s*\(/\<close>\<close>

definition re_py_methodDef :: re where
  "re_py_methodDef =
     Seqs [Bol, ws1, Opt (Seq (Lit ''async'') ws1), Lit ''def'', ws1, Group 1 word1, ws0,
           Lit ''('']"

text \<open>\<open>/^(\w+)\s*(?::\s*\w+\s*)?=/\<close>\<close>

definition re_py_varAssign :: re where
  "re_py_varAssign =
     Seqs [Bol, Group 1 word1, ws0, Opt (Seqs [Lit '':'', ws0, word1, ws0]), Lit ''='']"

text \<open>
  One iteration of the loop of \<open>extractPython\<close>. Only the branch for indented
  definitions (\<open>methodDef\<close>) looks at a leading underscore; when it declines, the line
  goes on to the assignment pattern, as in the source.
\<close>

definition py_varAssign_step :: "string \<Rightarrow> nat \<Rightarrow> string \<Rightarrow> symbols \<Rightarrow> symbols" where
  "py_varAssign_step filePath lineNum ln s =
     (case exec re_py_varAssign ln of
        Some varAssign \<Rightarrow>
          if group varAssign 1 = toUpperCase (group varAssign 1)
          then add_variable (group varAssign 1) filePath lineNum s else s
      | None \<Rightarrow> s)"

definition extractPython_line :: "string \<Rightarrow> nat \<Rightarrow> string \<Rightarrow> symbols \<Rightarrow> symbols" where
  "extractPython_line filePath i ln s =
     (let lineNum = i + 1 in
      case exec re_py_funcDef ln of
        Some funcDef \<Rightarrow> add_function (group funcDef 1) filePath lineNum s
      | None \<Rightarrow>
          (case exec re_py_classDef ln of
             Some classDef \<Rightarrow> add_class (group classDef 1) filePath lineNum s
           | None \<Rightarrow>
               (case exec re_py_methodDef ln of
                  Some methodDef \<Rightarrow>
                    if \<not> startsWith (group methodDef 1) ''_''
                    then add_function (group methodDef 1) filePath lineNum s
                    else py_varAssign_step filePath lineNum ln s
                | None \<Rightarrow> py_varAssign_step filePath lineNum ln s)))"

definition extractPython :: "string \<Rightarrow> string list \<Rightarrow> symbols \<Rightarrow> symbols" where
  "extractPython filePath lines s =
     fold (\<lambda>(i, ln). extractPython_line filePath i ln) (enumerate_lines lines) s"

subsection \<open>Go\<close>

text \<open>\<open>/^func\s+(?:\(\w+\s+\*?\w+\)\s+)?(\w+)\s*\(/\<close>\<close>

definition re_go_funcDecl :: re where
  "re_go_funcDecl =
     Seqs [Bol, Lit ''func'', ws1,
           Opt (Seqs [Lit ''('', word1, ws1, Opt (Lit ''*''), word1, Lit '')'', ws1]),
           Group 1 word1, ws0, Lit ''('']"

text \<open>\<open>/^type\s+(\w+)\s+(?:struct|interface)\s*\{/\<close>\<close>

definition re_go_typeDecl :: re where
  "re_go_typeDecl =
     Seqs [Bol, Lit ''type'', ws1, Group 1 word1, ws1, Alt (Lit ''struct'') (Lit ''interface''),
           ws0, Lit ''{'']"

text \<open>\<open>/^(?:const|var)\s+(\w+)\s/\<close>\<close>

definition re_go_constDecl :: re where
  "re_go_constDecl =
     Seqs [Bol, Alt (Lit ''const'') (Lit ''var''), ws1, Group 1 word1, Chr is_space]"

definition extractGo_line :: "string \<Rightarrow> nat \<Rightarrow> string \<Rightarrow> symbols \<Rightarrow> symbols" where
  "extractGo_line filePath i ln s =
     (let lineNum = i + 1 in
      case exec re_go_funcDecl ln of
        Some funcDecl \<Rightarrow> add_function (group funcDecl 1) filePath lineNum s
      | None \<Rightarrow>
          (case exec re_go_typeDecl ln of
             Some typeDecl \<Rightarrow> add_class (group typeDecl 1) filePath lineNum s
           | None \<Rightarrow>
               (case exec re_go_constDecl ln of
                  Some constDecl \<Rightarrow> add_variable (group constDecl 1) filePath lineNum s
                | None \<Rightarrow> s)))"

definition extractGo :: "string \<Rightarrow> string list \<Rightarrow> symbols \<Rightarrow> symbols" where
  "extractGo filePath lines s =
     fold (\<lambda>(i, ln). extractGo_line filePath i ln) (enumerate_lines lines) s"

subsection \<open>Rust\<close>

text \<open>
  \<open>/^(?:pub\s+)?(?:async\s+)?fn\s+(\w+)/\<close>, \<open>/^(?:pub\s+)?struct\s+(\w+)/\<close>,
  \<open>/^(?:pub\s+)?enum\s+(\w+)/\<close>, \<open>/^(?:pub\s+)?trait\s+(\w+)/\<close> and
  \<open>/^(?:pub\s+)?(?:const|static)\s+(\w+)/\<close>
\<close>

definition re_rs_pub :: re where
  "re_rs_pub = Opt (Seq (Lit ''pub'') ws1)"

definition re_rs_funcDecl :: re where
  "re_rs_funcDecl =
     Seqs [Bol, re_rs_pub, Opt (Seq (Lit ''async'') ws1), Lit ''fn'', ws1, Group 1 word1]"

definition re_rs_keyword :: "string \<Rightarrow> re" where
  "re_rs_keyword kw = Seqs [Bol, re_rs_pub, Lit kw, ws1, Group 1 word1]"

definition re_rs_constDecl :: re where
  "re_rs_constDecl =
     Seqs [Bol, re_rs_pub, Alt (Lit ''const'') (Lit ''static''), ws1, Group 1 word1]"

definition extractRust_line :: "string \<Rightarrow> nat \<Rightarrow> string \<Rightarrow> symbols \<Rightarrow> symbols" where
  "extractRust_line filePath i ln s =
     (let lineNum = i + 1 in
      case exec re_rs_funcDecl ln of
        Some funcDecl \<Rightarrow> add_function (group funcDecl 1) filePath lineNum s
      | None \<Rightarrow>
       (case exec (re_rs_keyword ''struct'') ln of
          Some structDecl \<Rightarrow> add_class (group structDecl 1) filePath lineNum s
        | None \<Rightarrow>
         (case exec (re_rs_keyword ''enum'') ln of
            Some enumDecl \<Rightarrow> add_class (group enumDecl 1) filePath lineNum s
          | None \<Rightarrow>
           (case exec (re_rs_keyword ''trait'') ln of
              Some traitDecl \<Rightarrow> add_class (group traitDecl 1) filePath lineNum s
            | None \<Rightarrow>
               (case exec re_rs_constDecl ln of
                  Some constDecl \<Rightarrow> add_variable (group constDecl 1) filePath lineNum s
                | None \<Rightarrow> s)))))"

definition extractRust :: "string \<Rightarrow> string list \<Rightarrow> symbols \<Rightarrow> symbols" where
  "extractRust filePath lines s =
     fold (\<lambda>(i, ln). extractRust_line filePath i ln) (enumerate_lines lines) s"

text \<open>The \<open>switch\<close> of \<open>extractWithRegex\<close> on the language name.\<close>

definition extractWithRegex :: "string \<Rightarrow> string list \<Rightarrow> string \<Rightarrow> symbols \<Rightarrow> nat \<Rightarrow> symbols" where
  "extractWithRegex filePath lines lang s lineOffset =
     (if lang = ''javascript'' \<or> lang = ''typescript'' then extractJsRegex filePath lines s lineOffset
      else if lang = ''python'' then extractPython filePath lines s
      else if lang = ''go'' then extractGo filePath lines s
      else if lang = ''rust'' then extractRust filePath lines s
      else s)"

section \<open>The markup extractor\<close>

text \<open>\<open>/<title[^>]*>([^<]+)<\/title>/i\<close>\<close>

definition re_title :: re where
  "re_title =
     Seqs [LitI ''<title'', Star (NoneOf ''>''), Lit ''>'', Group 1 (Plus (NoneOf ''<'')),
           LitI ''</title>'']"

text \<open>\<open>/<script[^>]+src\s*=\s*["']([^"']+)["'][^>]*>/gi\<close>\<close>

definition re_script_src :: re where
  "re_script_src =
     Seqs [LitI ''<script'', Plus (NoneOf ''>''), LitI ''src'', ws0, Lit ''='', ws0,
           OneOf [CHR 0x22, CHR 0x27], Group 1 (Plus (NoneOf [CHR 0x22, CHR 0x27])),
           OneOf [CHR 0x22, CHR 0x27], Star (NoneOf ''>''), Lit ''>'']"

text \<open>\<open>/<script(?![^>]*\bsrc\b)[^>]*>([\s\S]*?)<\/script>/gi\<close>\<close>

definition re_inline_script :: re where
  "re_inline_script =
     Seqs [LitI ''<script'', NotAhead (Seqs [Star (NoneOf ''>''), WordB, LitI ''src'', WordB]),
           Star (NoneOf ''>''), Lit ''>'', Group 1 (Lazy (Chr (\<lambda>c. True))), LitI ''</script>'']"

text \<open>
  \<open>path.basename\<close> of a relative path without trailing separators. The walker passes
  paths whose last segment ends in \<open>.html\<close>, so the key of the page entry is never a member
  name of \<open>Object.prototype\<close>.
\<close>

definition basename :: "string \<Rightarrow> string" where
  "basename p = last (split_on CHR ''/'' p)"

text \<open>
  One inline script block: skipped when blank; otherwise \<open>blockStart\<close> is the number of
  lines of the text before the match, and the block goes to \<open>extractWithAst\<close> inside a
  \<open>try\<close> whose \<open>catch\<close> runs the line patterns for JavaScript.
\<close>

definition inline_script ::
  "(Lang \<Rightarrow> string \<Rightarrow> sg_node option) \<Rightarrow> string \<Rightarrow> string \<Rightarrow> re_match \<Rightarrow> symbols \<Rightarrow> symbols" where
  "inline_script parse filePath content inlineMatch s =
     (let scriptContent = group inlineMatch 1 in
      if trim scriptContent = [] then s
      else
        (let blockStart = length (split_on CHR 0x0A (take (index inlineMatch) content)) in
         case extractWithAst parse filePath scriptContent JavaScript s blockStart of
           Inr s' \<Rightarrow> s'
         | Inl e \<Rightarrow>
             extractWithRegex filePath (split_on CHR 0x0A scriptContent) ''javascript'' s
               blockStart))"

definition html_title :: "string \<Rightarrow> string option" where
  "html_title content =
     (case exec re_title content of Some titleMatch \<Rightarrow> Some (trim (group titleMatch 1)) | None \<Rightarrow> None)"

definition html_scripts :: "string \<Rightarrow> string list" where
  "html_scripts content =
     filter (\<lambda>src. \<not> (startsWith src ''http'' \<or> startsWith src ''//''))
       (map (\<lambda>m. group m 1) (match_all re_script_src [] content))"

definition extractHtml ::
  "(Lang \<Rightarrow> string \<Rightarrow> sg_node option) \<Rightarrow> string \<Rightarrow> string \<Rightarrow> symbols \<Rightarrow> symbols" where
  "extractHtml parse filePath content s =
     (let title = html_title content;
          scripts = html_scripts content;
          s = fold (inline_script parse filePath content) (match_all re_inline_script [] content) s;
          name = basename filePath
      in s\<lparr>htmlPages := js_set (htmlPages s) name
            \<lparr>srcfile = filePath,
              title = (case title of Some t \<Rightarrow> if t = [] then name else t | None \<Rightarrow> name),
              scripts = scripts\<rparr>\<rparr>)"

text \<open>The page entry \<open>{file, title: title || name, scripts}\<close> of a markup file.\<close>

definition page_of :: "string \<Rightarrow> string \<Rightarrow> page_entry" where
  "page_of filePath content =
     \<lparr>srcfile = filePath,
       title = (case html_title content of
                  Some t \<Rightarrow> if t = [] then basename filePath else t
                | None \<Rightarrow> basename filePath),
       scripts = html_scripts content\<rparr>"

text \<open>
  A page with one inline script block, and the tree the parser returns for the block:
  the root begins at \<open>function\<close>, on line 1 of the block (counted from 0). Below the three
  statements only the nodes that a query of the extractor can reach are kept.
  \<open>sample_parse\<close> is the parser on this block.
\<close>

definition sample_page :: string where
  "sample_page =
     ''<html>\<newline><body>\<newline><script>\<newline>function greet() {}\<newline>app.get('/api/x', greet)\<newline>exports.greet = greet\<newline></script>''"

definition sample_block :: string where
  "sample_block = ''\<newline>function greet() {}\<newline>app.get('/api/x', greet)\<newline>exports.greet = greet\<newline>''"

definition sample_tree :: sg_node where
  "sample_tree =
     Node ''program''
       ''function greet() {}\<newline>app.get('/api/x', greet)\<newline>exports.greet = greet\<newline>'' 1
       [([], Node ''function_declaration'' ''function greet() {}'' 1
          [(''name'', Node ''identifier'' ''greet'' 1 []),
           (''parameters'', Node ''formal_parameters'' ''()'' 1 []),
           (''body'', Node ''statement_block'' ''{}'' 1 [])]),
        ([], Node ''expression_statement'' ''app.get('/api/x', greet)'' 2
          [([], Node ''call_expression'' ''app.get('/api/x', greet)'' 2 [])]),
        ([], Node ''expression_statement'' ''exports.greet = greet'' 3
          [([], Node ''assignment_expression'' ''exports.greet = greet'' 3 [])])]"

definition sample_parse :: "Lang \<Rightarrow> string \<Rightarrow> sg_node option" where
  "sample_parse lang content = Some sample_tree"





section \<open>The directory walker\<close>

text \<open>
  The file system under the project root, as \<open>walkDir\<close> reads it: a directory entry is
  a directory (with its own entries, and whether \<open>readdirSync\<close> succeeds on it) or
  anything else (with the result of \<open>statSync\<close>, the size and the date that
  \<open>mtime.toISOString()\<close> gives, and with the result of \<open>readFileSync\<close>; \<open>None\<close> where the
  call throws).
\<close>

datatype dirent =
    File string "(nat \<times> string option) option" "string option"
  | Dir string bool "dirent list"

fun entry_name :: "dirent \<Rightarrow> string" where
  "entry_name (File name stat content) = name"
| "entry_name (Dir name readable entries) = name"

fun isDirectory :: "dirent \<Rightarrow> bool" where
  "isDirectory (File name stat content) = False"
| "isDirectory (Dir name readable entries) = True"

record scanned_file =
  fpath :: string
  flang :: string
  flines :: nat
  fsize :: nat
  modified :: string

record walk_state =
  files :: "scanned_file list"
  syms :: symbols

definition SKIP_DIRS :: "string list" where
  "SKIP_DIRS =
     [''node_modules'', ''.git'', ''.wisdom'', ''.claude'', ''dist'', ''build'',
      ''coverage'', ''.next'', ''__pycache__'', ''.tox'', ''.venv'', ''venv'',
      ''vendor'', ''target'', ''.cache'', ''.turbo'', ''.github'',
      ''archive'', ''backups'', ''backup'', ''logs'', ''tmp'',
      ''uploads'', ''media'', ''data'', ''migrations'',
      ''content'', ''Website'', ''public'', ''static'', ''assets'']"

definition LANG_MAP :: "(string \<times> Lang option \<times> string) list" where
  "LANG_MAP =
     [(''.js'', Some JavaScript, ''javascript''), (''.mjs'', Some JavaScript, ''javascript''),
      (''.cjs'', Some JavaScript, ''javascript''), (''.jsx'', Some JavaScript, ''javascript''),
      (''.ts'', Some TypeScript, ''typescript''), (''.tsx'', Some Tsx, ''typescript''),
      (''.py'', None, ''python''), (''.go'', None, ''go''), (''.rs'', None, ''rust''),
      (''.html'', None, ''html'')]"

text \<open>
  \<open>path.extname\<close> of an entry name: from the last dot on, and empty when there is no dot
  or the only dot is the first character.
\<close>

definition extname :: "string \<Rightarrow> string" where
  "extname name =
     (if CHR ''.'' \<notin> set name then []
      else (let ext = CHR ''.'' # rev (takeWhile (\<lambda>c. c \<noteq> CHR ''.'') (rev name))
            in if length ext = length name then [] else ext))"

text \<open>
  \<open>entries.sort((a, b) => a.name.localeCompare(b.name))\<close>. The collation is the
  runtime's and is a parameter here; the sort is stable.
\<close>

fun insert_entry :: "(string \<Rightarrow> string \<Rightarrow> int) \<Rightarrow> dirent \<Rightarrow> dirent list \<Rightarrow> dirent list" where
  "insert_entry cmp e [] = [e]"
| "insert_entry cmp e (x # xs) =
     (if cmp (entry_name e) (entry_name x) < 0 then e # x # xs else x # insert_entry cmp e xs)"

definition sort_entries :: "(string \<Rightarrow> string \<Rightarrow> int) \<Rightarrow> dirent list \<Rightarrow> dirent list" where
  "sort_entries cmp es = foldl (\<lambda>acc e. insert_entry cmp e acc) [] es"

text \<open>
  The two limits are JavaScript numbers, here rationals: \<open>walkDir\<close> compares the depth and
  \<open>files.length\<close> with them as numbers.
\<close>

record walk_params =
  parse_tree :: "Lang \<Rightarrow> string \<Rightarrow> sg_node option"
  localeCompare :: "string \<Rightarrow> string \<Rightarrow> int"
  maxDepth :: rat
  maxFiles :: rat
  extraSkip :: "string list"

text \<open>The four \<open>continue\<close> tests at the head of the loop body.\<close>

definition skipped :: "walk_params \<Rightarrow> dirent \<Rightarrow> bool" where
  "skipped P entry =
     (let name = entry_name entry in
      (startsWith name ''.'' \<and> name \<noteq> ''.env.example'')
      \<or> name \<in> set SKIP_DIRS
      \<or> name \<in> set (extraSkip P)
      \<or> (isDirectory entry \<and> (CHR '' '' \<in> set name \<or> test (LitI ''backup'') name)))"

definition child_path :: "string \<Rightarrow> string \<Rightarrow> string" where
  "child_path rel name = (if rel = [] then name else rel @ ''/'' @ name)"

text \<open>
  The body of the \<open>try\<close> for one file: \<open>statSync\<close>, the size cap, \<open>readFileSync\<close>, the
  push to \<open>files\<close> and the extraction by language. An exception leaves the state as it
  is at that point.
\<close>

definition scan_file ::
  "walk_params \<Rightarrow> string \<Rightarrow> Lang option \<times> string \<Rightarrow> (nat \<times> string option) option \<Rightarrow> string option \<Rightarrow> walk_state \<Rightarrow> walk_state" where
  "scan_file P relPath langInfo stat content st =
     (case stat of
        None \<Rightarrow> st
      | Some (sz, mtime) \<Rightarrow>
          (let sizeLimit = (if snd langInfo = ''html'' then 5 * 1024 * 1024 else 500 * 1024)
           in if sz > sizeLimit then st
              else
                (case (content, mtime) of
                   (Some content, Some mdate) \<Rightarrow>
                     (let lns = split_on CHR 0x0A content;
                          st = st\<lparr>files := files st @
                                 [\<lparr>fpath = relPath, flang = snd langInfo, flines = length lns,
                                   fsize = sz, modified = mdate\<rparr>]\<rparr>
                      in if snd langInfo = ''html''
                         then st\<lparr>syms := extractHtml (parse_tree P) relPath content (syms st)\<rparr>
                         else
                           (case fst langInfo of
                              Some l \<Rightarrow>
                                (case extractWithAst (parse_tree P) relPath content l (syms st) 0 of
                                   Inr s \<Rightarrow> st\<lparr>syms := s\<rparr>
                                 | Inl e \<Rightarrow> st)
                            | None \<Rightarrow>
                                st\<lparr>syms := extractWithRegex relPath lns (snd langInfo) (syms st) 0\<rparr>))
                 | _ \<Rightarrow> st)))"

lemma size_insert_entry:
  "size_list size (insert_entry cmp e xs) = size_list size (e # xs)"
  by (induction xs) simp_all

lemma size_foldl_insert_entry:
  "size_list size (foldl (\<lambda>acc e. insert_entry cmp e acc) acc es)
     = size_list size acc + size_list size es"
  by (induction es arbitrary: acc) (simp_all add: size_insert_entry)

lemma size_sort_entries: "size_list size (sort_entries cmp es) = size_list size es"
  by (simp add: sort_entries_def size_foldl_insert_entry)

function walkDir :: "walk_params \<Rightarrow> bool \<Rightarrow> dirent list \<Rightarrow> string \<Rightarrow> nat \<Rightarrow> walk_state \<Rightarrow> walk_state"
  and walkLoop :: "walk_params \<Rightarrow> dirent list \<Rightarrow> string \<Rightarrow> nat \<Rightarrow> walk_state \<Rightarrow> walk_state" where
  "walkDir P readable entries rel depth st =
     (if of_nat depth > maxDepth P \<or> of_nat (length (files st)) \<ge> maxFiles P then st
      else if \<not> readable then st
      else walkLoop P (sort_entries (localeCompare P) entries) rel depth st)"
| "walkLoop P [] rel depth st = st"
| "walkLoop P (entry # rest) rel depth st =
     (if of_nat (length (files st)) \<ge> maxFiles P then st
      else if skipped P entry then walkLoop P rest rel depth st
      else
        (case entry of
           Dir name readable entries \<Rightarrow>
             walkLoop P rest rel depth
               (walkDir P readable entries (child_path rel name) (depth + 1) st)
         | File name stat content \<Rightarrow>
             (case map_of LANG_MAP (extname name) of
                None \<Rightarrow> walkLoop P rest rel depth st
              | Some langInfo \<Rightarrow>
                  walkLoop P rest rel depth
                    (scan_file P (child_path rel name) langInfo stat content st))))"
  by pat_completeness auto
termination
  by (relation "measure (\<lambda>x. case x of
          Inl (P, readable, entries, rel, depth, st) \<Rightarrow> 2 * size_list size entries + 1
        | Inr (P, es, rel, depth, st) \<Rightarrow> 2 * size_list size es)")
     (auto simp: size_sort_entries)

declare walkDir.simps [simp del]

text \<open>\<open>/^([a-zA-Z0-9_-]+)\/?$/\<close> on the trimmed lines of \<open>.gitignore\<close>.\<close>

definition re_gitignore_dir :: re where
  "re_gitignore_dir =
     Seqs [Bol, Group 1 (Plus (Chr (\<lambda>c. is_alpha c \<or> is_digit c \<or> c \<in> set ''_-''))),
           Opt (Lit ''/''), Eol]"

definition gitignore_content :: "bool \<Rightarrow> dirent list \<Rightarrow> string option" where
  "gitignore_content readable entries =
     (if \<not> readable then None
      else (case filter (\<lambda>e. entry_name e = ''.gitignore'') entries of
              File name stat (Some content) # others \<Rightarrow> Some content
            | _ \<Rightarrow> None))"

definition readGitignoreDirs :: "bool \<Rightarrow> dirent list \<Rightarrow> string list" where
  "readGitignoreDirs readable entries =
     (case gitignore_content readable entries of
        None \<Rightarrow> []
      | Some content \<Rightarrow>
          fold (\<lambda>ln dirs.
                  (let trimmed = trim ln in
                   if trimmed = [] \<or> startsWith trimmed ''#'' then dirs
                   else (case exec re_gitignore_dir trimmed of
                           Some dirMatch \<Rightarrow> set_add dirs (group dirMatch 1)
                         | None \<Rightarrow> dirs)))
            (split_on CHR 0x0A content) [])"

text \<open>
  The \<open>options\<close> argument of \<open>scanProject\<close>. A call without it takes the default \<open>{}\<close>, the
  object with neither limit. \<open>null\<close> is not replaced by the default, and reading
  \<open>options.maxDepth\<close> from it throws a \<open>TypeError\<close>. A limit of the object is absent or a
  number, positive or not, whole or not. \<open>options.maxDepth || 8\<close> and
  \<open>options.maxFiles || 2000\<close> give the default for an absent limit and for 0.
\<close>

record scan_options =
  opt_maxDepth :: "rat option"
  opt_maxFiles :: "rat option"

datatype options_value = OptionsNull | Options scan_options

definition or_default :: "rat option \<Rightarrow> rat \<Rightarrow> rat" where
  "or_default v d = (case v of None \<Rightarrow> d | Some n \<Rightarrow> if n = 0 then d else n)"

definition scanProject ::
  "(Lang \<Rightarrow> string \<Rightarrow> sg_node option) \<Rightarrow> (string \<Rightarrow> string \<Rightarrow> int) \<Rightarrow> bool \<Rightarrow> dirent list \<Rightarrow> options_value \<Rightarrow> js_error + walk_state" where
  "scanProject parse cmp readable entries options =
     (case options of
        OptionsNull \<Rightarrow> Inl TypeError
      | Options opts \<Rightarrow>
          Inr (walkDir
                 \<lparr>parse_tree = parse, localeCompare = cmp,
                   maxDepth = or_default (opt_maxDepth opts) 8,
                   maxFiles = or_default (opt_maxFiles opts) 2000,
                   extraSkip = readGitignoreDirs readable entries\<rparr>
                 readable entries [] 0 \<lparr>files = [], syms = empty_symbols\<rparr>))"

text \<open>The paths of the files of a result, in order; none when the call throws.\<close>

definition scanned_paths :: "js_error + walk_state \<Rightarrow> string list" where
  "scanned_paths r = (case r of Inr st \<Rightarrow> map fpath (files st) | Inl e \<Rightarrow> [])"

text \<open>
  \<open>prune_entry k\<close> empties every directory that lies more than \<open>k\<close> levels below the
  entry: the tree as a walk that stops \<open>k\<close> levels further down sees it.
\<close>

fun prune_entry :: "nat \<Rightarrow> dirent \<Rightarrow> dirent" where
  "prune_entry k (File name stat content) = File name stat content"
| "prune_entry k (Dir name readable entries) =
     (case k of 0 \<Rightarrow> Dir name readable []
      | Suc k' \<Rightarrow> Dir name readable (map (prune_entry k') entries))"

text \<open>A small project tree, used to run the walker.\<close>

definition sample_fs :: "dirent list" where
  "sample_fs =
     [File ''a.py'' (Some (10, Some ''2024-05-01'')) (Some ''A = 1''),
      File ''b.py'' (Some (10, Some ''2024-05-01'')) (Some ''B = 2''),
      Dir ''src'' True
        [Dir ''deep'' True [File ''c.py'' (Some (10, Some ''2024-05-01'')) (Some ''C = 3'')]]]"

section \<open>The fuzzy matcher\<close>

text \<open>
  \<open>levenshtein(a, b)\<close> fills a matrix with one row per prefix of \<open>b\<close> and one column per
  prefix of \<open>a\<close>. Row 0 is \<open>[0, 1, ..., a.length]\<close>; row \<open>i\<close> starts with \<open>i\<close> and each further
  cell is computed from the cell above-left (\<open>d\<close>), the cell above (\<open>u\<close>) and the cell
  to the left.
\<close>

fun lev_cells :: "'a \<Rightarrow> 'a list \<Rightarrow> nat list \<Rightarrow> nat \<Rightarrow> nat list" where
  "lev_cells c (x # xs) (d # u # prev) left =
     (let v = (if c = x then d else min (d + 1) (min (left + 1) (u + 1)))
      in v # lev_cells c xs (u # prev) v)"
| "lev_cells c xs prev left = []"

fun lev_rows :: "'a list \<Rightarrow> 'a list \<Rightarrow> nat \<Rightarrow> nat list \<Rightarrow> nat list list" where
  "lev_rows a [] i prev = []"
| "lev_rows a (c # cs) i prev =
     (let row = i # lev_cells c a prev i in row # lev_rows a cs (Suc i) row)"

definition lev_matrix :: "'a list \<Rightarrow> 'a list \<Rightarrow> nat list list" where
  "lev_matrix a b = (let row0 = [0..<Suc (length a)] in row0 # lev_rows a b 1 row0)"

definition levenshtein :: "'a list \<Rightarrow> 'a list \<Rightarrow> nat" where
  "levenshtein a b =
     (if a = [] then length b
      else if b = [] then length a
      else lev_matrix a b ! length b ! length a)"

text \<open>
  The edit distance the matrix is meant to hold, written as the textbook recurrence:
  \<open>prefix_distance a b\<close> reads both strings from their last characters, as cell
  \<open>(i, j)\<close> of the matrix does for the prefixes of length \<open>j\<close> of \<open>a\<close> and \<open>i\<close> of \<open>b\<close>.
\<close>

fun edit_distance :: "'a list \<Rightarrow> 'a list \<Rightarrow> nat" where
  "edit_distance [] ys = length ys"
| "edit_distance xs [] = length xs"
| "edit_distance (x # xs) (y # ys) =
     (if x = y then edit_distance xs ys
      else 1 + min (edit_distance xs ys)
                 (min (edit_distance xs (y # ys)) (edit_distance (x # xs) ys)))"

definition prefix_distance :: "'a list \<Rightarrow> 'a list \<Rightarrow> nat" where
  "prefix_distance a b = edit_distance (rev a) (rev b)"

definition lev_row :: "'a list \<Rightarrow> 'a list \<Rightarrow> nat list" where
  "lev_row a bs = map (\<lambda>j. prefix_distance (take j a) bs) [0..<Suc (length a)]"

text \<open>
  \<open>Math.max(2, Math.floor(query.length * 0.3))\<close>. The double nearest to 0.3 is below 0.3
  by a relative error under 2 to the power -54, so for every string length \<open>n\<close> the product rounds to 3n/10
  when that is an integer and keeps its integer part otherwise: the floor is \<open>3n div 10\<close>.
\<close>

definition maxDistance :: "string \<Rightarrow> nat" where
  "maxDistance query = max 2 ((3 * length query) div 10)"

text \<open>
  The loop of \<open>findFuzzyMatch\<close> over the name set, in its insertion order. The state is
  (\<open>bestMatch\<close>, \<open>bestDistance\<close>); \<open>None\<close> stands for \<open>null\<close> and for \<open>Infinity\<close>. The
  first argument is \<open>String.prototype.toLowerCase\<close>.
\<close>

definition abs_diff :: "nat \<Rightarrow> nat \<Rightarrow> nat" where
  "abs_diff m n = (if m < n then n - m else m - n)"

fun fuzzy_loop :: "(string \<Rightarrow> string) \<Rightarrow> string \<Rightarrow> string list \<Rightarrow> string option \<times> nat option \<Rightarrow> string option \<times> nat option" where
  "fuzzy_loop toLowerCase query [] best = best"
| "fuzzy_loop toLowerCase query (name # names) (bestMatch, bestDistance) =
     (if abs_diff (length name) (length query) > maxDistance query
      then fuzzy_loop toLowerCase query names (bestMatch, bestDistance)
      else
        (let dist = levenshtein (toLowerCase query) (toLowerCase name)
         in if dist \<le> maxDistance query
               \<and> (case bestDistance of None \<Rightarrow> True | Some bd \<Rightarrow> dist < bd)
            then fuzzy_loop toLowerCase query names (Some name, Some dist)
            else fuzzy_loop toLowerCase query names (bestMatch, bestDistance)))"

text \<open>\<open>return bestMatch ? {name, distance} : null\<close>: the empty string is falsy too.\<close>

definition findFuzzyMatch :: "(string \<Rightarrow> string) \<Rightarrow> string \<Rightarrow> string list \<Rightarrow> (string \<times> nat) option" where
  "findFuzzyMatch toLowerCase query names =
     (case fuzzy_loop toLowerCase query names (None, None) of
        (Some m, Some d) \<Rightarrow> if m = [] then None else Some (m, d)
      | _ \<Rightarrow> None)"









section \<open>The route validator\<close>

text \<open>
  The route check of the post-write hook. \<open>routePath\<close> is
  \<open>info.path || key.split(' ').slice(1).join(' ')\<close>; the four sets are built from the
  entries of \<open>registry.apiRoutes\<close> (here \<open>table\<close>).
\<close>

definition routePath :: "string \<times> route_entry \<Rightarrow> string" where
  "routePath kv =
     (if path (snd kv) \<noteq> [] then path (snd kv)
      else join_with '' '' (drop 1 (split_on CHR '' '' (fst kv))))"

definition is_mount :: "string \<times> route_entry \<Rightarrow> bool" where
  "is_mount kv = (http_method (snd kv) = ''MOUNT'')"

text \<open>\<open>/\/:[a-zA-Z_]\w*/g\<close>\<close>

definition re_param :: re where
  "re_param = Seqs [Lit ''/:'', Chr (\<lambda>c. is_alpha c \<or> c = CHR ''_''), Star (Chr is_word)]"

definition normalized :: "string \<Rightarrow> string" where
  "normalized p = replace_all re_param ''/*'' p"

definition mounts :: "route_entry js_obj \<Rightarrow> string list" where
  "mounts table = fold (\<lambda>kv ms. if is_mount kv then set_add ms (routePath kv) else ms) table []"

definition knownPaths :: "route_entry js_obj \<Rightarrow> string list" where
  "knownPaths table =
     fold (\<lambda>kv ks. if is_mount kv then ks else set_add ks (routePath kv)) table []"

definition knownNormalized :: "route_entry js_obj \<Rightarrow> string list" where
  "knownNormalized table =
     fold (\<lambda>kv ks. if is_mount kv then ks else set_add ks (normalized (routePath kv))) table []"

definition has_sub_routes :: "string list \<Rightarrow> string \<Rightarrow> bool" where
  "has_sub_routes kps mount = (\<exists>kp \<in> set kps. startsWith kp (mount @ ''/'') \<or> kp = mount)"

definition mountsWithSubRoutes :: "route_entry js_obj \<Rightarrow> string list" where
  "mountsWithSubRoutes table = filter (has_sub_routes (knownPaths table)) (mounts table)"

text \<open>\<open>match[1].replace(/\/$/, '')\<close>\<close>

definition strip_slash :: "string \<Rightarrow> string" where
  "strip_slash p = replace_first (Seq (Lit ''/'') Eol) [] p"

text \<open>\<open>segments.map(s => /^\d+$/.test(s) ? '*' : s).join('/')\<close>\<close>

definition re_digits :: re where
  "re_digits = Seqs [Bol, Plus (Chr is_digit), Eol]"

definition wildcarded :: "string \<Rightarrow> string" where
  "wildcarded apiPath =
     join_with ''/'' (map (\<lambda>s. if test re_digits s then ''*'' else s) (split_on CHR ''/'' apiPath))"

definition prefixMatch :: "route_entry js_obj \<Rightarrow> string \<Rightarrow> bool" where
  "prefixMatch table apiPath =
     (\<exists>kp \<in> set (knownPaths table). startsWith kp (apiPath @ ''/''))"

definition underOpaqueMount :: "route_entry js_obj \<Rightarrow> string \<Rightarrow> bool" where
  "underOpaqueMount table apiPath =
     (\<exists>mount \<in> set (mounts table).
        mount \<notin> set (mountsWithSubRoutes table)
        \<and> (startsWith apiPath (mount @ ''/'') \<or> apiPath = mount))"

text \<open>The body of the loop over the path literals: is \<open>match[1]\<close> pushed to \<open>badRoutes\<close>?\<close>

definition bad_route :: "route_entry js_obj \<Rightarrow> string \<Rightarrow> bool" where
  "bad_route table literal =
     (let apiPath = strip_slash literal in
      if apiPath \<in> set (knownPaths table) then False
      else if wildcarded apiPath \<in> set (knownNormalized table) then False
      else if prefixMatch table apiPath then False
      else if underOpaqueMount table apiPath then False
      else True)"

text \<open>\<open>/['"`](\/api\/[a-zA-Z0-9/_-]+)['"`]/g\<close> over the scanned content.\<close>

definition re_api_literal :: re where
  "re_api_literal =
     Seqs [OneOf [CHR 0x27, CHR 0x22, CHR 0x60],
           Group 1 (Seq (Lit ''/api/'')
             (Plus (Chr (\<lambda>c. is_alpha c \<or> is_digit c \<or> c \<in> set ''/_-'')))),
           OneOf [CHR 0x27, CHR 0x22, CHR 0x60]]"

definition badRoutes :: "route_entry js_obj \<Rightarrow> string \<Rightarrow> string list" where
  "badRoutes table scanContent =
     (if table = [] then []
      else filter (bad_route table)
             (map (\<lambda>m. group m 1) (match_all re_api_literal [] scanContent)))"

text \<open>Two small route tables, used to run the validator.\<close>

definition users_table :: "route_entry js_obj" where
  "users_table = [(''GET /api/users/:id'',
     \<lparr>srcfile = ''routes/users.js'', line = 12, http_method = ''GET'', path = ''/api/users/:id''\<rparr>)]"



section \<open>Properties of the registry\<close>

lemma map_of_js_set: "map_of (js_set obj k v) = (map_of obj)(k \<mapsto> v)"
  by (induction obj) (auto simp: fun_upd_twist)

lemma js_keys_js_set:
  "js_keys (js_set obj k v) = (if k \<in> set (js_keys obj) then js_keys obj else js_keys obj @ [k])"
  by (induction obj) (force simp: js_keys_def)+

lemma distinct_js_set: "distinct (js_keys obj) \<Longrightarrow> distinct (js_keys (js_set obj k v))"
  by (simp add: js_keys_js_set)

subsection \<open>addSymbol: first-seen location, total count\<close>

definition calls_for :: "string \<Rightarrow> (string \<times> string \<times> nat) list \<Rightarrow> (string \<times> string \<times> nat) list" where
  "calls_for n cs = filter (\<lambda>c. fst c = n) cs"

lemma map_of_addSymbol_other:
  "n \<noteq> m \<Longrightarrow> map_of (addSymbol category m f l) n = map_of category n"
  by (simp add: addSymbol_def map_of_js_set split: js_prop.splits)

lemma map_of_addSymbol_same:
  assumes "n \<notin> set object_prototype_keys"
  shows "map_of (addSymbol category n f l) n =
           (case map_of category n of
              None \<Rightarrow> Some \<lparr>srcfile = f, line = l, usages = 1\<rparr>
            | Some e \<Rightarrow> Some (e\<lparr>usages := usages e + 1\<rparr>))"
  using assms by (simp add: addSymbol_def js_get_def map_of_js_set split: option.splits)

text \<open>
  For a name that \<open>Object.prototype\<close> does not define, the calls of a scan leave the
  location of the first call and the number of calls, whatever the other names do.
\<close>

lemma addSymbols_entry:
  assumes "n \<notin> set object_prototype_keys"
  shows "map_of (addSymbols category cs) n =
           (case map_of category n of
              Some e \<Rightarrow> Some (e\<lparr>usages := usages e + length (calls_for n cs)\<rparr>)
            | None \<Rightarrow>
                (case calls_for n cs of
                   [] \<Rightarrow> None
                 | (n', f, l) # rest \<Rightarrow>
                     Some \<lparr>srcfile = f, line = l, usages = length (calls_for n cs)\<rparr>))"
proof (induction cs arbitrary: category)
  case Nil
  show ?case by (simp add: calls_for_def split: option.splits)
next
  case (Cons c cs)
  obtain m f l where c: "c = (m, f, l)" by (cases c)
  show ?case
  proof (cases "m = n")
    case True
    have cf: "calls_for n (c # cs) = (n, f, l) # calls_for n cs"
      by (simp add: c True calls_for_def)
    show ?thesis
      unfolding cf using Cons [of "addSymbol category n f l"] assms
      by (simp add: c True map_of_addSymbol_same split: option.splits)
  next
    case False
    have cf: "calls_for n (c # cs) = calls_for n cs"
      using False by (simp add: c calls_for_def)
    have "map_of (addSymbol category m f l) n = map_of category n"
      using False by (simp add: map_of_addSymbol_other)
    then show ?thesis
      unfolding cf using Cons [of "addSymbol category m f l"]
      by (simp add: c)
  qed
qed

lemma addSymbols_first_location:
  assumes "n \<notin> set object_prototype_keys" and "n \<notin> fst ` set pre"
  shows "map_of (addSymbols [] (pre @ (n, f, l) # cs)) n =
           Some \<lparr>srcfile = f, line = l, usages = Suc (length (calls_for n cs))\<rparr>"
proof -
  have "calls_for n pre = []"
    using assms(2) by (auto simp: calls_for_def filter_empty_conv)
  then show ?thesis
    using addSymbols_entry [OF assms(1), of "[]" "pre @ (n, f, l) # cs"]
    by (simp add: calls_for_def)
qed

lemma addSymbol_inherited:
  assumes "n \<in> set object_prototype_keys" and "map_of category n = None"
  shows "map_of (addSymbol category m f l) n = None"
proof (cases "m = n")
  case True
  then show ?thesis using assms by (simp add: addSymbol_def js_get_def)
next
  case False
  then show ?thesis using assms(2) by (simp add: map_of_addSymbol_other)
qed

text \<open>
  C1. The first \<open>addSymbol\<close> call for a (category, name) pair is to create the entry with
  that call's file and line and count 1, and later calls only count. The code tests
  \<open>!category[name]\<close> on a plain object: for a member name of \<open>Object.prototype\<close>, such as
  the method name \<open>toString\<close> that the syntax-tree extractor passes on, the read finds the
  inherited member, so neither the first call nor any later one creates an entry. Whatever
  the calls of a scan are, a category that starts without such an entry ends without it.
\<close>

theorem addSymbol_inherited_name_no_entry:
  assumes "n \<in> set object_prototype_keys" and "map_of category n = None"
  shows "map_of (addSymbols category cs) n = None"
  using assms(2)
proof (induction cs arbitrary: category)
  case Nil
  then show ?case by simp
next
  case (Cons c cs)
  obtain m f l where c: "c = (m, f, l)" by (cases c)
  have "map_of (addSymbol category m f l) n = None"
    using assms(1) Cons.prems by (rule addSymbol_inherited)
  from Cons.IH [OF this] show ?case by (simp add: c)
qed

theorem addSymbol_inherited_name_no_entry_witness:
  "''toString'' \<in> set object_prototype_keys
   \<and> addSymbol [] ''toString'' ''src/a.js'' 3 = []
   \<and> addSymbols [] [(''toString'', ''src/a.js'', 3), (''toString'', ''src/b.js'', 9)] = []
   \<and> map_of (addSymbols [] [(''toString'', ''src/a.js'', 3), (''toString'', ''src/b.js'', 9)])
         ''toString'' = None"
proof -
  have h1: "''toString'' \<in> set object_prototype_keys"
    by (simp add: object_prototype_keys_def)
  have h2: "map_of ([] :: sym_entry js_obj) ''toString'' = None"
    by simp
  have e: "addSymbol [] ''toString'' ''src/a.js'' 3 = []"
    "addSymbols [] [(''toString'', ''src/a.js'', 3), (''toString'', ''src/b.js'', 9)] = []"
    by (simp_all add: addSymbol_def js_get_def object_prototype_keys_def)
  show ?thesis
    using addSymbol_inherited_name_no_entry [OF h1 h2,
        of "[(''toString'', ''src/a.js'', 3), (''toString'', ''src/b.js'', 9)]"] h1 e
    by simp
qed

subsection \<open>The matrix holds the edit distance\<close>

lemma edit_distance_Nil2 [simp]: "edit_distance xs [] = length xs"
  by (cases xs) simp_all


lemma pd_Nil1: "prefix_distance [] ys = length ys"
  by (simp add: prefix_distance_def)

lemma pd_Nil2: "prefix_distance xs [] = length xs"
  by (simp add: prefix_distance_def)

lemma pd_snoc:
  "prefix_distance (xs @ [x]) (ys @ [y]) =
     (if x = y then prefix_distance xs ys
      else 1 + min (prefix_distance xs ys)
                 (min (prefix_distance xs (ys @ [y])) (prefix_distance (xs @ [x]) ys)))"
  by (simp add: prefix_distance_def)

lemma lev_cells_row:
  "lev_cells c suf
     (map (\<lambda>j. prefix_distance (take j (pre @ suf)) bs) [length pre..<Suc (length pre + length suf)])
     (prefix_distance pre (bs @ [c])) =
   map (\<lambda>j. prefix_distance (take j (pre @ suf)) (bs @ [c]))
     [Suc (length pre)..<Suc (length pre + length suf)]"
proof (induction suf arbitrary: pre)
  case Nil
  show ?case by simp
next
  case (Cons x suf)
  have n: "[length pre..<Suc (length pre + length (x # suf))] =
        length pre # Suc (length pre) # [Suc (Suc (length pre))..<Suc (Suc (length pre + length suf))]"
    by (simp add: upt_conv_Cons del: upt_Suc)
  have m: "[Suc (length pre)..<Suc (length pre + length (x # suf))] =
        Suc (length pre) # [Suc (Suc (length pre))..<Suc (Suc (length pre + length suf))]"
    by (simp add: upt_conv_Cons del: upt_Suc)
  let ?F = "\<lambda>j. prefix_distance (take j (pre @ x # suf)) bs"
  let ?G = "\<lambda>j. prefix_distance (take j (pre @ x # suf)) (bs @ [c])"
  let ?R = "[Suc (Suc (length pre))..<Suc (Suc (length pre + length suf))]"
  have u: "[Suc (length pre)..<Suc (Suc (length pre + length suf))] = Suc (length pre) # ?R"
    by (simp add: upt_conv_Cons del: upt_Suc)
  have F0: "?F (length pre) = prefix_distance pre bs" by simp
  have F1: "?F (Suc (length pre)) = prefix_distance (pre @ [x]) bs" by simp
  have G1: "?G (Suc (length pre)) = prefix_distance (pre @ [x]) (bs @ [c])" by simp
  have ih: "lev_cells c suf (?F (Suc (length pre)) # map ?F ?R) (?G (Suc (length pre))) = map ?G ?R"
    using Cons [of "pre @ [x]" ] unfolding G1 by (simp add: u del: upt_Suc)
  have step: "lev_cells c (x # suf) (?F (length pre) # ?F (Suc (length pre)) # map ?F ?R)
                (prefix_distance pre (bs @ [c])) =
              ?G (Suc (length pre)) #
                lev_cells c suf (?F (Suc (length pre)) # map ?F ?R) (?G (Suc (length pre)))"
    unfolding F0 F1 G1 by (simp add: Let_def pd_snoc)
  show ?case
    unfolding n m by (simp only: list.map step ih)
qed

lemma lev_cells_lev_row:
  "i = Suc (length bs) \<Longrightarrow> i # lev_cells c a (lev_row a bs) i = lev_row a (bs @ [c])"
  using lev_cells_row [of c a "[]" bs]
  by (simp add: lev_row_def pd_Nil1 upt_conv_Cons del: upt_Suc)

lemma lev_rows_eq:
  "lev_rows a cs (Suc (length bs)) (lev_row a bs) =
     map (\<lambda>k. lev_row a (bs @ take k cs)) [1..<Suc (length cs)]"
proof (induction cs arbitrary: bs)
  case Nil
  show ?case by simp
next
  case (Cons c cs)
  have sh: "[Suc (Suc 0)..<Suc (Suc (length cs))] = map Suc [Suc 0..<Suc (length cs)]"
    by (simp only: map_Suc_upt)
  have "map (\<lambda>k. lev_row a (bs @ take k (c # cs))) [1..<Suc (length (c # cs))]
        = lev_row a (bs @ [c]) # map (\<lambda>k. lev_row a ((bs @ [c]) @ take k cs)) [1..<Suc (length cs)]"
    by (simp add: upt_conv_Cons sh o_def del: upt_Suc)
  then show ?case
    using Cons [of "bs @ [c]"] by (simp add: lev_cells_lev_row Let_def del: upt_Suc)
qed

lemma lev_matrix_nth:
  assumes "i \<le> length b"
  shows "lev_matrix a b ! i = lev_row a (take i b)"
proof -
  have "map (\<lambda>j. prefix_distance (take j a) []) [0..<Suc (length a)] = map (\<lambda>j. j) [0..<Suc (length a)]"
    by (intro map_cong refl) (auto simp: pd_Nil2 simp del: upt_Suc)
  then have r0: "[0..<Suc (length a)] = lev_row a []"
    by (simp add: lev_row_def del: upt_Suc)
  have "lev_matrix a b = lev_row a [] # map (\<lambda>k. lev_row a (take k b)) [1..<Suc (length b)]"
    unfolding lev_matrix_def Let_def r0 using lev_rows_eq [of a b "[]"] by simp
  then show ?thesis using assms
    by (cases i) (simp_all del: upt_Suc)
qed

lemma levenshtein_prefix_distance: "levenshtein a b = prefix_distance a b"
proof -
  have "lev_row a b ! length a = prefix_distance a b"
    unfolding lev_row_def by (simp del: upt_Suc add: nth_map_upt)
  then show ?thesis
    by (simp add: levenshtein_def lev_matrix_nth pd_Nil1 pd_Nil2)
qed


subsection \<open>The distance limit of the fuzzy matcher\<close>



definition within_limit :: "(string \<Rightarrow> string) \<Rightarrow> string \<Rightarrow> string \<Rightarrow> bool" where
  "within_limit toLowerCase query name \<longleftrightarrow>
     abs_diff (length name) (length query) \<le> maxDistance query
     \<and> levenshtein (toLowerCase query) (toLowerCase name) \<le> maxDistance query"

definition best_ok :: "(string \<Rightarrow> string) \<Rightarrow> string \<Rightarrow> string list \<Rightarrow> string option \<times> nat option \<Rightarrow> bool" where
  "best_ok toLowerCase query seen best \<longleftrightarrow>
     (case best of
        (None, None) \<Rightarrow> \<forall>n \<in> set seen. \<not> within_limit toLowerCase query n
      | (Some m, Some d) \<Rightarrow>
          m \<in> set seen \<and> within_limit toLowerCase query m
          \<and> d = levenshtein (toLowerCase query) (toLowerCase m)
          \<and> (\<forall>n \<in> set seen. within_limit toLowerCase query n \<longrightarrow>
                d \<le> levenshtein (toLowerCase query) (toLowerCase n))
      | _ \<Rightarrow> False)"

lemma fuzzy_loop_best_ok:
  "best_ok toLowerCase query seen best \<Longrightarrow> best_ok toLowerCase query (seen @ names) (fuzzy_loop toLowerCase query names best)"
proof (induction names arbitrary: seen best)
  case Nil
  then show ?case by simp
next
  case (Cons name names)
  obtain bm bd where best: "best = (bm, bd)" by (cases best)
  let ?next = "if abs_diff (length name) (length query) > maxDistance query then (bm, bd)
      else (let dist = levenshtein (toLowerCase query) (toLowerCase name)
         in if dist \<le> maxDistance query
               \<and> (case bd of None \<Rightarrow> True | Some b \<Rightarrow> dist < b)
            then (Some name, Some dist) else (bm, bd))"
  have step: "fuzzy_loop toLowerCase query (name # names) best = fuzzy_loop toLowerCase query names ?next"
    by (simp add: best Let_def)
  have "best_ok toLowerCase query (seen @ [name]) ?next"
    using Cons.prems unfolding best best_ok_def within_limit_def
    by (auto simp: Let_def split: option.splits)
  from Cons.IH [OF this] show ?case
    by (simp add: step)
qed

lemma findFuzzyMatch_Some:
  assumes "findFuzzyMatch toLowerCase query names = Some (m, d)"
  shows "m \<in> set names \<and> within_limit toLowerCase query m \<and> d = levenshtein (toLowerCase query) (toLowerCase m)
         \<and> (\<forall>n \<in> set names. within_limit toLowerCase query n \<longrightarrow> d \<le> levenshtein (toLowerCase query) (toLowerCase n))"
proof -
  have "best_ok toLowerCase query ([] @ names) (fuzzy_loop toLowerCase query names (None, None))"
    by (rule fuzzy_loop_best_ok) (simp add: best_ok_def)
  then show ?thesis using assms
    by (auto simp: findFuzzyMatch_def best_ok_def split: prod.splits option.splits if_splits)
qed

lemma findFuzzyMatch_None:
  assumes "findFuzzyMatch toLowerCase query names = None"
  shows "(\<forall>n \<in> set names. \<not> within_limit toLowerCase query n) \<or> ([] \<in> set names \<and> within_limit toLowerCase query [])"
proof -
  have "best_ok toLowerCase query ([] @ names) (fuzzy_loop toLowerCase query names (None, None))"
    by (rule fuzzy_loop_best_ok) (simp add: best_ok_def)
  then show ?thesis using assms
    by (auto simp: findFuzzyMatch_def best_ok_def split: prod.splits option.splits if_splits)
qed

lemma findFuzzyMatch_no_candidate:
  assumes "\<forall>n \<in> set names. \<not> within_limit toLowerCase query n"
  shows "findFuzzyMatch toLowerCase query names = None"
proof (cases "findFuzzyMatch toLowerCase query names")
  case None then show ?thesis .
next
  case (Some r)
  then show ?thesis using findFuzzyMatch_Some [of toLowerCase query names "fst r" "snd r"] assms by auto
qed

lemma within_limit_empty: "within_limit toLowerCase query [] \<Longrightarrow> length query \<le> 2"
  by (auto simp: within_limit_def abs_diff_def maxDistance_def max_def split: if_splits)
















lemmas fuzzy_eval = findFuzzyMatch_def levenshtein_def lev_matrix_def maxDistance_def
  abs_diff_def ascii_lower_def lower_char_def

text \<open>
  C2 (as amended). The matcher compares lower-cased strings: it returns a match only if
  the returned known name is within \<open>max(2, floor(queryLength * 0.3))\<close> of the query both
  in length and in edit distance between the lower-cased strings, and the distance it
  reports is that one; when every known name is beyond that limit in length or in that
  distance there is no match; for a query and a single known name, both of length 10,
  lower-cased distance 4 gives no match and lower-cased distance 3 gives the match with
  distance 3.
\<close>

theorem findFuzzyMatch_limit:
  "(findFuzzyMatch toLowerCase query names = Some (m, d) \<longrightarrow>
      m \<in> set names \<and> d = prefix_distance (toLowerCase query) (toLowerCase m)
      \<and> d \<le> maxDistance query \<and> abs_diff (length m) (length query) \<le> maxDistance query)
   \<and> ((\<forall>n \<in> set names'.
          maxDistance query' < abs_diff (length n) (length query')
          \<or> maxDistance query' < prefix_distance (toLowerCase query') (toLowerCase n))
        \<longrightarrow> findFuzzyMatch toLowerCase query' names' = None)
   \<and> (length q4 = 10 \<and> length n4 = 10
        \<and> prefix_distance (toLowerCase q4) (toLowerCase n4) = 4
        \<longrightarrow> findFuzzyMatch toLowerCase q4 [n4] = None)
   \<and> (length q3 = 10 \<and> length n3 = 10
        \<and> prefix_distance (toLowerCase q3) (toLowerCase n3) = 3
        \<longrightarrow> findFuzzyMatch toLowerCase q3 [n3] = Some (n3, 3))"
proof -
  have a: "m \<in> set names \<and> d = prefix_distance (toLowerCase query) (toLowerCase m)
      \<and> d \<le> maxDistance query \<and> abs_diff (length m) (length query) \<le> maxDistance query"
    if "findFuzzyMatch toLowerCase query names = Some (m, d)"
    using findFuzzyMatch_Some [OF that]
    by (simp add: within_limit_def levenshtein_prefix_distance)
  have b: "findFuzzyMatch toLowerCase query' names' = None"
    if "\<forall>n \<in> set names'.
          maxDistance query' < abs_diff (length n) (length query')
          \<or> maxDistance query' < prefix_distance (toLowerCase query') (toLowerCase n)"
  proof (rule findFuzzyMatch_no_candidate)
    show "\<forall>n \<in> set names'. \<not> within_limit toLowerCase query' n"
      using that by (auto simp: within_limit_def levenshtein_prefix_distance)
  qed
  have c: "findFuzzyMatch toLowerCase q4 [n4] = None"
    if "length q4 = 10 \<and> length n4 = 10
        \<and> prefix_distance (toLowerCase q4) (toLowerCase n4) = 4"
    using that
    by (simp add: findFuzzyMatch_def maxDistance_def abs_diff_def levenshtein_prefix_distance)
  have d: "findFuzzyMatch toLowerCase q3 [n3] = Some (n3, 3)"
    if "length q3 = 10 \<and> length n3 = 10
        \<and> prefix_distance (toLowerCase q3) (toLowerCase n3) = 3"
    using that
    by (auto simp: findFuzzyMatch_def maxDistance_def abs_diff_def levenshtein_prefix_distance)
  show ?thesis
    using a b c d by blast
qed

text \<open>
  C2 as stated fails for names that differ in letter case: the two strings below have
  length 10 and edit distance 4 (the limit is 3), the query is not a known name, and the
  matcher returns the known name with distance 0.
\<close>

theorem findFuzzyMatch_case_counterexample:
  "length ''ABCDxxxxxx'' = 10 \<and> length ''abcdxxxxxx'' = 10
   \<and> ''ABCDxxxxxx'' \<notin> set [''abcdxxxxxx'']
   \<and> prefix_distance ''ABCDxxxxxx'' ''abcdxxxxxx'' = 4
   \<and> maxDistance ''ABCDxxxxxx'' = 3
   \<and> findFuzzyMatch ascii_lower ''ABCDxxxxxx'' [''abcdxxxxxx''] = Some (''abcdxxxxxx'', 0)"
proof -
  have "levenshtein ''ABCDxxxxxx'' ''abcdxxxxxx'' = 4"
    by (simp add: fuzzy_eval)
  moreover have "findFuzzyMatch ascii_lower ''ABCDxxxxxx'' [''abcdxxxxxx''] = Some (''abcdxxxxxx'', 0)"
    by (simp add: fuzzy_eval)
  ultimately show ?thesis
    by (simp add: levenshtein_prefix_distance maxDistance_def)
qed

theorem findFuzzyMatch_limit_witness:
  "findFuzzyMatch ascii_lower ''grete'' [''greet''] = Some (''greet'', 2)
   \<and> 2 = prefix_distance (ascii_lower ''grete'') (ascii_lower ''greet'')
   \<and> 2 \<le> maxDistance ''grete''
   \<and> findFuzzyMatch ascii_lower ''frobnicate'' [''greet''] = None
   \<and> prefix_distance (ascii_lower ''helloworld'') (ascii_lower ''helloABCDd'') = 4
   \<and> findFuzzyMatch ascii_lower ''helloworld'' [''helloABCDd''] = None
   \<and> prefix_distance (ascii_lower ''helloworld'') (ascii_lower ''hellowABCd'') = 3
   \<and> findFuzzyMatch ascii_lower ''helloworld'' [''hellowABCd''] = Some (''hellowABCd'', 3)"
proof -
  have h1: "findFuzzyMatch ascii_lower ''grete'' [''greet''] = Some (''greet'', 2)"
    by (simp add: fuzzy_eval)
  have h2: "\<forall>n \<in> set [''greet''].
      maxDistance ''frobnicate'' < abs_diff (length n) (length ''frobnicate'')
      \<or> maxDistance ''frobnicate'' < prefix_distance (ascii_lower ''frobnicate'') (ascii_lower n)"
    by (simp add: maxDistance_def abs_diff_def)
  have h3: "length ''helloworld'' = 10 \<and> length ''helloABCDd'' = 10
      \<and> prefix_distance (ascii_lower ''helloworld'') (ascii_lower ''helloABCDd'') = 4"
    by (simp add: levenshtein_prefix_distance [symmetric] fuzzy_eval)
  have h4: "length ''helloworld'' = 10 \<and> length ''hellowABCd'' = 10
      \<and> prefix_distance (ascii_lower ''helloworld'') (ascii_lower ''hellowABCd'') = 3"
    by (simp add: levenshtein_prefix_distance [symmetric] fuzzy_eval)
  note inst = findFuzzyMatch_limit [where toLowerCase = ascii_lower and query = "''grete''" and names = "[''greet'']"
      and m = "''greet''" and d = 2 and query' = "''frobnicate''" and names' = "[''greet'']"
      and ?q4.0 = "''helloworld''" and ?n4.0 = "''helloABCDd''"
      and ?q3.0 = "''helloworld''" and ?n3.0 = "''hellowABCd''"]
  show ?thesis
    using inst h1 h2 h3 h4 by blast
qed



section \<open>Properties of the route validator\<close>

lemma set_fold_add_if:
  "set (fold (\<lambda>kv ks. if P kv then set_add ks (f kv) else ks) xs acc)
     = set acc \<union> f ` {kv \<in> set xs. P kv}"
  by (induction xs arbitrary: acc) (auto simp: set_add_def)


lemma set_knownPaths: "set (knownPaths table) = routePath ` {kv \<in> set table. \<not> is_mount kv}"
proof -
  have "knownPaths table = fold (\<lambda>kv ks. if \<not> is_mount kv then set_add ks (routePath kv) else ks) table []"
    unfolding knownPaths_def by (rule arg_cong [where f = "\<lambda>g. fold g table []"]) (auto simp: fun_eq_iff)
  then show ?thesis by (simp add: set_fold_add_if)
qed

lemma set_knownNormalized:
  "set (knownNormalized table) = (\<lambda>kv. normalized (routePath kv)) ` {kv \<in> set table. \<not> is_mount kv}"
proof -
  have "knownNormalized table =
      fold (\<lambda>kv ks. if \<not> is_mount kv then set_add ks (normalized (routePath kv)) else ks) table []"
    unfolding knownNormalized_def by (rule arg_cong [where f = "\<lambda>g. fold g table []"]) (auto simp: fun_eq_iff)
  then show ?thesis by (simp add: set_fold_add_if)
qed

lemma run_slash_eol:
  "run (Seq (Lit ''/'') Eol) (pre, rest, caps) =
     (if rest = ''/'' then [(CHR ''/'' # pre, [], caps)] else [])"
  by (cases rest) (auto simp: Lit_def split: list.splits)

lemma search_slash_eol:
  "search (Seq (Lit ''/'') Eol) pre rest =
     (if rest \<noteq> [] \<and> last rest = CHR ''/''
      then Some \<lparr>index = length pre + length rest - 1, matched = ''/'', groups = [],
             consumed = CHR ''/'' # rev (butlast rest) @ pre, remaining = []\<rparr>
      else None)"
proof (induction rest arbitrary: pre)
  case Nil
  show ?case by (simp add: search.simps run_slash_eol del: run.simps)
next
  case (Cons c cs)
  show ?case
    using Cons [of "c # pre"]
    by (subst search.simps) (auto simp: run_slash_eol simp del: run.simps)
qed

lemma strip_slash_eq:
  "strip_slash p = (if p \<noteq> [] \<and> last p = CHR ''/'' then butlast p else p)"
  by (auto simp: strip_slash_def replace_first_def exec_def search_slash_eol butlast_conv_take
       simp del: run.simps)






lemmas re_eval = search.simps match_all.simps Lit_def LitI_def Seqs_def Plus_def Opt_def OneOf_def NoneOf_def exec_def test_def
  group_def replace_all_def replace_first_def is_digit_def is_alpha_def is_upper_def is_lower_def
  is_word_def is_space_def

lemmas route_eval = bad_route_def strip_slash_eq knownPaths_def knownNormalized_def mounts_def
  mountsWithSubRoutes_def has_sub_routes_def is_mount_def routePath_def set_add_def normalized_def
  re_param_def wildcarded_def re_digits_def prefixMatch_def underOpaqueMount_def startsWith_def
  badRoutes_def re_api_literal_def

lemma normalized_users: "normalized ''/api/users/:id'' = ''/api/users/*''"
  by (simp add: normalized_def re_param_def re_eval)

lemma wildcarded_42: "wildcarded ''/api/users/42'' = ''/api/users/*''"
  by (simp add: wildcarded_def re_digits_def re_eval)

lemma wildcarded_abc: "wildcarded ''/api/users/abc'' = ''/api/users/abc''"
  by (simp add: wildcarded_def re_digits_def re_eval)

lemma wildcarded_profile: "wildcarded ''/api/users/42/profile'' = ''/api/users/*/profile''"
  by (simp add: wildcarded_def re_digits_def re_eval)

text \<open>
  C3 (as amended). For a route table whose only leaf route is \<open>/api/users/:id\<close> the
  validator accepts \<open>/api/users/42\<close>: the named parameter of the known route and the
  purely numeric segment of the query both become the wildcard. Segments of the query
  that are not purely numeric are compared as they are, so \<open>/api/users/abc\<close> and
  \<open>/api/users/42/profile\<close> are reported unknown, unless they lie under a mount without
  resolved sub-routes.
\<close>

theorem users_route_queries:
  assumes "\<exists>kv \<in> set table. \<not> is_mount kv"
    and "\<forall>kv \<in> set table. \<not> is_mount kv \<longrightarrow> routePath kv = ''/api/users/:id''"
  shows "\<not> bad_route table ''/api/users/42''
       \<and> (bad_route table ''/api/users/abc'' \<longleftrightarrow> \<not> underOpaqueMount table ''/api/users/abc'')
       \<and> (bad_route table ''/api/users/42/profile'' \<longleftrightarrow>
            \<not> underOpaqueMount table ''/api/users/42/profile'')"
proof -
  have kp: "set (knownPaths table) = {''/api/users/:id''}"
    using assms by (auto simp: set_knownPaths)
  have kn: "set (knownNormalized table) = {''/api/users/*''}"
    using assms by (auto simp: set_knownNormalized normalized_users)
  have a: "\<not> bad_route table ''/api/users/42''"
    by (simp add: bad_route_def strip_slash_eq kp kn wildcarded_42)
  have b: "bad_route table ''/api/users/abc'' \<longleftrightarrow> \<not> underOpaqueMount table ''/api/users/abc''"
    by (simp add: bad_route_def strip_slash_eq kp kn wildcarded_abc prefixMatch_def startsWith_def)
  have c: "bad_route table ''/api/users/42/profile'' \<longleftrightarrow>
            \<not> underOpaqueMount table ''/api/users/42/profile''"
    by (simp add: bad_route_def strip_slash_eq kp kn wildcarded_profile prefixMatch_def startsWith_def)
  show ?thesis using a b c by blast
qed

theorem users_route_queries_witness:
  "knownPaths users_table = [''/api/users/:id'']
   \<and> mounts users_table = []
   \<and> \<not> bad_route users_table ''/api/users/42''
   \<and> bad_route users_table ''/api/users/abc''
   \<and> bad_route users_table ''/api/users/42/profile''"
proof -
  have h1: "\<exists>kv \<in> set users_table. \<not> is_mount kv"
    by (simp add: users_table_def is_mount_def)
  have h2: "\<forall>kv \<in> set users_table. \<not> is_mount kv \<longrightarrow> routePath kv = ''/api/users/:id''"
    by (simp add: users_table_def is_mount_def routePath_def)
  have no_mount: "\<not> underOpaqueMount users_table p" for p
    by (simp add: underOpaqueMount_def mounts_def users_table_def is_mount_def)
  have h3: "knownPaths users_table = [''/api/users/:id'']"
    by (simp add: knownPaths_def users_table_def is_mount_def routePath_def set_add_def)
  have h4: "mounts users_table = []"
    by (simp add: mounts_def users_table_def is_mount_def)
  show ?thesis
    using users_route_queries [OF h1 h2] h3 h4 no_mount by blast
qed

text \<open>
  C3 as stated fails: with \<open>GET /api/users/:id\<close> as the only entry of the table, the
  literal \<open>/api/users/abc\<close> is reported as an unknown route.
\<close>

theorem users_route_abc_counterexample:
  "bad_route users_table ''/api/users/abc''
   \<and> badRoutes users_table ''fetch('/api/users/abc')'' = [''/api/users/abc'']"
proof -
  have "bad_route users_table ''/api/users/abc''"
    by (simp add: users_table_def route_eval re_eval)
  moreover have "badRoutes users_table ''fetch('/api/users/abc')'' = [''/api/users/abc'']"
    by (simp add: users_table_def route_eval re_eval)
  ultimately show ?thesis by simp
qed

section \<open>Properties of the Python extractor\<close>







lemma py_varAssign_step_functions [simp]:
  "functions' (py_varAssign_step f lineNum ln s) = functions' s"
  by (simp add: py_varAssign_step_def add_variable_def split: option.splits)


























lemma no_group_Lit [simp]: "no_group (Lit s)"
  by (induction s) (simp_all add: Lit_def)













section \<open>Properties of the markup extractor\<close>

lemma fold_keeps: "(\<And>x s. g (f x s) = g s) \<Longrightarrow> g (fold f xs s) = g s"
  by (induction xs arbitrary: s) simp_all

lemma htmlPages_add [simp]:
  "htmlPages (add_function n f l s) = htmlPages s"
  "htmlPages (add_class n f l s) = htmlPages s"
  "htmlPages (add_variable n f l s) = htmlPages s"
  "htmlPages (add_export n f l s) = htmlPages s"
  "htmlPages (add_route k e s) = htmlPages s"
  by (simp_all add: add_function_def add_class_def add_variable_def add_export_def add_route_def)

lemma htmlPages_add_node:
  assumes "\<And>n f l s. htmlPages (add n f l s) = htmlPages s"
  shows "htmlPages (add_node add f off name s) = htmlPages s"
  by (simp add: add_node_def assms)

lemma htmlPages_named_decls:
  assumes "\<And>n f l s. htmlPages (add n f l s) = htmlPages s"
  shows "htmlPages (named_decls add k f off root s) = htmlPages s"
  unfolding named_decls_def
  by (rule fold_keeps) (simp add: htmlPages_add_node assms split: option.splits)

lemma htmlPages_declarators: "htmlPages (declarators nv k f off root s) = htmlPages s"
  unfolding declarators_def
  by (intro fold_keeps) (simp add: htmlPages_add_node split: option.splits)

lemma htmlPages_methods: "htmlPages (methods f off root s) = htmlPages s"
  unfolding methods_def
  by (rule fold_keeps) (simp add: htmlPages_add_node split: option.splits)

lemma htmlPages_export_statement: "htmlPages (export_statement f off node s) = htmlPages s"
proof -
  have a: "htmlPages (fold (\<lambda>decl s. case field decl ''name'' of
                                         Some n \<Rightarrow> add_node add_export f off n s
                                       | None \<Rightarrow> s) xs s) = htmlPages s" for xs s
    by (rule fold_keeps) (simp add: htmlPages_add_node split: option.splits)
  show ?thesis
    by (simp add: export_statement_def Let_def a htmlPages_add_node split: option.splits)
qed

lemma htmlPages_scan_line: "htmlPages (scan_line f i ln s) = htmlPages s"
proof -
  have a: "htmlPages (fold (\<lambda>name s. if name \<noteq> [] \<and> test re_word_only name
                                  then add_export name f (i + 1) s else s) xs s) = htmlPages s" for xs s
    by (rule fold_keeps) simp
  show ?thesis
    by (simp add: scan_line_def Let_def a split: option.splits)
qed

lemma htmlPages_scan_lines: "htmlPages (scan_lines f ls s) = htmlPages s"
  unfolding scan_lines_def
  by (rule fold_keeps) (simp add: htmlPages_scan_line split: prod.splits)

lemma htmlPages_extractAstSymbols: "htmlPages (extractAstSymbols root f lang s off) = htmlPages s"
proof -
  have e: "htmlPages (fold (export_statement f off) xs s) = htmlPages s" for xs s
    by (rule fold_keeps) (simp add: htmlPages_export_statement)
  show ?thesis
    by (simp add: extractAstSymbols_def Let_def htmlPages_scan_lines e htmlPages_methods
          htmlPages_declarators htmlPages_named_decls)
qed

lemma htmlPages_extractJsRegex: "htmlPages (extractJsRegex f ls s off) = htmlPages s"
  unfolding extractJsRegex_def
  by (rule fold_keeps) (simp add: extractJsRegex_line_def Let_def split: prod.splits option.splits)

lemma htmlPages_extractPython: "htmlPages (extractPython f ls s) = htmlPages s"
  unfolding extractPython_def
  by (rule fold_keeps)
     (simp add: extractPython_line_def py_varAssign_step_def Let_def split: prod.splits option.splits)

lemma htmlPages_extractGo: "htmlPages (extractGo f ls s) = htmlPages s"
  unfolding extractGo_def
  by (rule fold_keeps) (simp add: extractGo_line_def Let_def split: prod.splits option.splits)

lemma htmlPages_extractRust: "htmlPages (extractRust f ls s) = htmlPages s"
  unfolding extractRust_def
  by (rule fold_keeps) (simp add: extractRust_line_def Let_def split: prod.splits option.splits)

lemma htmlPages_extractWithRegex: "htmlPages (extractWithRegex f ls lang s off) = htmlPages s"
  by (simp add: extractWithRegex_def htmlPages_extractJsRegex htmlPages_extractPython
        htmlPages_extractGo htmlPages_extractRust)

lemma extractWithAst_returns:
  "\<exists>s'. extractWithAst parse f c lang s off = Inr s'"
  by (simp add: extractWithAst_def split: option.splits)

lemma htmlPages_inline_script: "htmlPages (inline_script parse f content m s) = htmlPages s"
  by (auto simp: inline_script_def Let_def extractWithAst_def htmlPages_extractAstSymbols
        htmlPages_extractWithRegex split: option.splits sum.splits)

lemma htmlPages_extractHtml:
  "htmlPages (extractHtml parse f c s) = js_set (htmlPages s) (basename f) (page_of f c)"
proof -
  have "htmlPages (fold (inline_script parse f c) ms s) = htmlPages s" for ms
    by (rule fold_keeps) (simp add: htmlPages_inline_script)
  then show ?thesis
    by (simp add: extractHtml_def Let_def page_of_def)
qed

text \<open>
  C10. The page category is keyed by the base name of the file and \<open>extractHtml\<close>
  assigns the entry: after a markup file is extracted the entry under its base name is
  that file's, whatever was there; when two markup files with the same base name are
  extracted one after the other, the key holds the later file's entry and the category
  gets no second key. \<open>addSymbol\<close>, used for every other category, keeps the file and line
  of the first call.
\<close>

theorem extractHtml_last_wins:
  "map_of (htmlPages (extractHtml parse f2 c2 s)) (basename f2) = Some (page_of f2 c2)
   \<and> (basename f1 = basename f2 \<longrightarrow>
        map_of (htmlPages (extractHtml parse f2 c2 (extractHtml parse f1 c1 s))) (basename f1)
          = Some (page_of f2 c2)
        \<and> js_keys (htmlPages (extractHtml parse f2 c2 (extractHtml parse f1 c1 s)))
          = js_keys (htmlPages (extractHtml parse f1 c1 s)))
   \<and> (n \<notin> set object_prototype_keys \<longrightarrow>
        map_of (addSymbol (addSymbol [] n g1 l1) n g2 l2) n
          = Some \<lparr>srcfile = g1, line = l1, usages = 2\<rparr>)"
proof -
  have k: "basename f1 \<in> set (js_keys (htmlPages (extractHtml parse f1 c1 s)))"
    by (simp add: htmlPages_extractHtml js_keys_js_set)
  have a: "map_of (htmlPages (extractHtml parse f2 c2 s)) (basename f2) = Some (page_of f2 c2)" for s
    by (simp add: htmlPages_extractHtml map_of_js_set)
  have b: "js_keys (htmlPages (extractHtml parse f2 c2 (extractHtml parse f1 c1 s)))
          = js_keys (htmlPages (extractHtml parse f1 c1 s))" if "basename f1 = basename f2"
    using k that by (simp add: htmlPages_extractHtml [of parse f2] js_keys_js_set)
  have c: "map_of (addSymbol (addSymbol [] n g1 l1) n g2 l2) n
          = Some \<lparr>srcfile = g1, line = l1, usages = 2\<rparr>"
    if "n \<notin> set object_prototype_keys"
    using that by (simp add: map_of_addSymbol_same)
  show ?thesis
    using a b c by simp
qed

theorem extractHtml_last_wins_witness:
  "basename ''admin/index.html'' = basename ''shop/index.html''
   \<and> map_of (htmlPages (extractHtml sample_parse ''shop/index.html'' ''<title>Shop</title>''
         (extractHtml sample_parse ''admin/index.html'' ''<title>Admin</title>'' empty_symbols)))
         ''index.html''
       = Some \<lparr>srcfile = ''shop/index.html'', title = ''Shop'', scripts = []\<rparr>
   \<and> js_keys (htmlPages (extractHtml sample_parse ''shop/index.html'' ''<title>Shop</title>''
         (extractHtml sample_parse ''admin/index.html'' ''<title>Admin</title>'' empty_symbols)))
       = [''index.html'']
   \<and> ''greet'' \<notin> set object_prototype_keys
   \<and> map_of (addSymbol (addSymbol [] ''greet'' ''a.js'' 3) ''greet'' ''b.js'' 9) ''greet''
       = Some \<lparr>srcfile = ''a.js'', line = 3, usages = 2\<rparr>"
proof -
  have h1: "basename ''admin/index.html'' = basename ''shop/index.html''"
    by (simp add: basename_def)
  have h2: "''greet'' \<notin> set object_prototype_keys"
    by (simp add: object_prototype_keys_def)
  have b: "basename ''admin/index.html'' = ''index.html''"
    by (simp add: basename_def)
  have page: "page_of ''shop/index.html'' ''<title>Shop</title>''
      = \<lparr>srcfile = ''shop/index.html'', title = ''Shop'', scripts = []\<rparr>"
    by (simp add: page_of_def html_title_def html_scripts_def re_title_def re_script_src_def
          ws0_def re_eval lower_char_def trim_def)
  have keys: "js_keys (htmlPages (extractHtml sample_parse ''admin/index.html''
      ''<title>Admin</title>'' empty_symbols)) = [''index.html'']"
    by (simp add: htmlPages_extractHtml b empty_symbols_def js_keys_def)
  note inst = extractHtml_last_wins [where ?f1.0 = "''admin/index.html''"
      and ?f2.0 = "''shop/index.html''" and ?c1.0 = "''<title>Admin</title>''"
      and ?c2.0 = "''<title>Shop</title>''" and parse = sample_parse and s = empty_symbols
      and n = "''greet''" and ?g1.0 = "''a.js''" and ?l1.0 = 3 and ?g2.0 = "''b.js''"
      and ?l2.0 = 9]
  show ?thesis
    using inst h1 h2 b page keys by simp
qed

lemma sample_inline:
  "match_all re_inline_script [] sample_page =
     [\<lparr>index = 14, matched = ''<script>'' @ sample_block @ ''</script>'',
       groups = [(1, sample_block)], consumed = rev sample_page, remaining = []\<rparr>]"
  by (simp add: sample_page_def sample_block_def re_inline_script_def re_eval lower_char_def)

lemma sample_blockStart: "length (split_on CHR 0x0A (take 14 sample_page)) = 3"
  by (simp add: sample_page_def)

lemma sample_block_not_blank: "trim sample_block \<noteq> []"
  by (simp add: sample_block_def trim_def is_space_def)

lemmas ast_eval = extractAstSymbols_def named_decls_def declarators_def methods_def
  export_statement_def field_def add_node_def add_function_def add_class_def add_variable_def
  add_export_def add_route_def addSymbol_def js_get_def object_prototype_keys_def
  scan_lines_def scan_line_def enumerate_lines_def re_memberExport_def re_bulkExport_def
  re_routeMatch_def re_mountMatch_def re_word_only_def bulk_names_def quote_chars_def
  toUpperCase_def upper_char_def startsWith_def empty_symbols_def

lemma sample_ast:
  "extractAstSymbols sample_tree ''pages/admin.html'' JavaScript empty_symbols 3
   = \<lparr>functions' = [(''greet'', \<lparr>srcfile = ''pages/admin.html'', line = 5, usages = 1\<rparr>)],
      classes = [], variables = [],
      exports = [(''greet'', \<lparr>srcfile = ''pages/admin.html'', line = 3, usages = 1\<rparr>)],
      apiRoutes = [(''GET /api/x'', \<lparr>srcfile = ''pages/admin.html'', line = 2,
                        http_method = ''GET'', path = ''/api/x''\<rparr>)],
      htmlPages = []\<rparr>"
  by (simp add: sample_tree_def ast_eval re_eval Let_def)

lemma sample_inline_script:
  "fold (inline_script sample_parse ''pages/admin.html'' sample_page)
     (match_all re_inline_script [] sample_page) empty_symbols
   = \<lparr>functions' = [(''greet'', \<lparr>srcfile = ''pages/admin.html'', line = 5, usages = 1\<rparr>)],
      classes = [], variables = [],
      exports = [(''greet'', \<lparr>srcfile = ''pages/admin.html'', line = 3, usages = 1\<rparr>)],
      apiRoutes = [(''GET /api/x'', \<lparr>srcfile = ''pages/admin.html'', line = 2,
                        http_method = ''GET'', path = ''/api/x''\<rparr>)],
      htmlPages = []\<rparr>"
  by (simp add: sample_inline inline_script_def group_def sample_block_not_blank sample_blockStart
        extractWithAst_def sample_parse_def sample_ast)

text \<open>
  C5. Every symbol and route of an inline script block is to be recorded at its line
  within the block plus the block's starting line. The block of \<open>sample_page\<close> starts at
  line 3. The function declared on line 2 of the block is found in the syntax tree and
  recorded at line 5. The two scans of the raw source lines record \<open>i + 1\<close>, where \<open>i\<close>
  counts the lines of the root's text from its first token, and the offset is not added:
  the route declared on line 3 of the block is recorded at line 2, not 6, and the
  exports-object assignment on line 4 of the block at line 3, not 7.
\<close>

theorem inline_script_raw_scan_lines:
  "length (split_on CHR 0x0A (take 14 sample_page)) = 3
   \<and> functions' (extractHtml sample_parse ''pages/admin.html'' sample_page empty_symbols)
       = [(''greet'', \<lparr>srcfile = ''pages/admin.html'', line = 5, usages = 1\<rparr>)]
   \<and> apiRoutes (extractHtml sample_parse ''pages/admin.html'' sample_page empty_symbols)
       = [(''GET /api/x'', \<lparr>srcfile = ''pages/admin.html'', line = 2,
            http_method = ''GET'', path = ''/api/x''\<rparr>)]
   \<and> exports (extractHtml sample_parse ''pages/admin.html'' sample_page empty_symbols)
       = [(''greet'', \<lparr>srcfile = ''pages/admin.html'', line = 3, usages = 1\<rparr>)]"
  by (simp add: extractHtml_def Let_def sample_inline_script sample_blockStart)








section \<open>Properties of the directory walker\<close>



lemma entry_name_prune [simp]: "entry_name (prune_entry k e) = entry_name e"
  by (cases e; cases k) simp_all

lemma isDirectory_prune [simp]: "isDirectory (prune_entry k e) = isDirectory e"
  by (cases e; cases k) simp_all

lemma skipped_prune [simp]: "skipped P (prune_entry k e) = skipped P e"
  by (simp add: skipped_def)







lemmas walk_eval = scanProject_def scanned_paths_def walkDir.simps sort_entries_def skipped_def
  SKIP_DIRS_def LANG_MAP_def extname_def child_path_def scan_file_def readGitignoreDirs_def
  gitignore_content_def or_default_def startsWith_def


text \<open>
  C8 as stated, for every options value, fails. With \<open>maxFiles\<close> 1.5 the test
  \<open>files.length >= maxFiles\<close> lets a second file in, and the list has 2 entries. With
  \<open>maxFiles\<close> -1 the list is empty, and its length 0 is above the limit. With \<open>null\<close> for
  the options the call throws.
\<close>

theorem scanProject_options_counterexample:
  "scanned_paths (scanProject sample_parse (\<lambda>a b. 0) True sample_fs
       (Options \<lparr>opt_maxDepth = None, opt_maxFiles = Some (3 / 2)\<rparr>)) = [''a.py'', ''b.py'']
   \<and> \<not> of_nat (length [''a.py'', ''b.py'']) \<le> (3 / 2 :: rat)
   \<and> scanned_paths (scanProject sample_parse (\<lambda>a b. 0) True sample_fs
       (Options \<lparr>opt_maxDepth = None, opt_maxFiles = Some (- 1)\<rparr>)) = []
   \<and> (\<exists>st. scanProject sample_parse (\<lambda>a b. 0) True sample_fs
              (Options \<lparr>opt_maxDepth = None, opt_maxFiles = Some (- 1)\<rparr>) = Inr st)
   \<and> \<not> of_nat (length ([] :: string list)) \<le> (- 1 :: rat)
   \<and> scanProject sample_parse (\<lambda>a b. 0) True sample_fs OptionsNull = Inl TypeError"
proof -
  have a: "scanned_paths (scanProject sample_parse (\<lambda>a b. 0) True sample_fs
       (Options \<lparr>opt_maxDepth = None, opt_maxFiles = Some (3 / 2)\<rparr>)) = [''a.py'', ''b.py'']"
    by (simp add: sample_fs_def walk_eval re_eval)
  have b: "scanned_paths (scanProject sample_parse (\<lambda>a b. 0) True sample_fs
       (Options \<lparr>opt_maxDepth = None, opt_maxFiles = Some (- 1)\<rparr>)) = []"
    by (simp add: sample_fs_def walk_eval re_eval)
  have c: "\<exists>st. scanProject sample_parse (\<lambda>a b. 0) True sample_fs
              (Options \<lparr>opt_maxDepth = None, opt_maxFiles = Some (- 1)\<rparr>) = Inr st"
    by (simp add: scanProject_def)
  have d: "scanProject sample_parse (\<lambda>a b. 0) True sample_fs OptionsNull = Inl TypeError"
    by (simp add: scanProject_def)
  show ?thesis
    using a b c d by simp
qed

end
